theory Spec2Isabelle
  imports Complex_Main "HOL-Library.Char_ord" "HOL-Library.List_Lexorder"
begin

section \<open>Python values used by the embedding\<close>

text \<open>
  Python strings are modelled as \<open>string\<close> (lists of \<open>char\<close>); a \<open>char\<close> stands for a
  code point below 256. The helpers follow \<open>str.strip\<close>, \<open>str.split\<close>, \<open>str.lower\<close>,
  \<open>str.endswith\<close> and the format specifications the sources use.
\<close>

definition squote :: char where
  "squote = CHR 0x27"

definition py_isspace :: "char \<Rightarrow> bool" where
  "py_isspace c =
     (let n = (of_char c :: nat)
      in (9 \<le> n \<and> n \<le> 13) \<or> (28 \<le> n \<and> n \<le> 32) \<or> n = 133 \<or> n = 160)"

definition py_strip :: "string \<Rightarrow> string" where
  "py_strip s = rev (dropWhile py_isspace (rev (dropWhile py_isspace s)))"

fun py_split :: "char \<Rightarrow> string \<Rightarrow> string list" where
  "py_split sep [] = [[]]"
| "py_split sep (c # cs) =
     (if c = sep then [] # py_split sep cs
      else (case py_split sep cs of
              [] \<Rightarrow> [[c]]
            | w # ws \<Rightarrow> (c # w) # ws))"

definition py_lower_char :: "char \<Rightarrow> char" where
  "py_lower_char c =
     (let n = (of_char c :: nat)
      in if (65 \<le> n \<and> n \<le> 90) \<or> (192 \<le> n \<and> n \<le> 222 \<and> n \<noteq> 215)
         then char_of (n + 32) else c)"

definition py_lower :: "string \<Rightarrow> string" where
  "py_lower s = map py_lower_char s"

definition py_endswith :: "string \<Rightarrow> string \<Rightarrow> bool" where
  "py_endswith s suffix_str =
     (length suffix_str \<le> length s \<and> drop (length s - length suffix_str) s = suffix_str)"

text \<open>Decimal digits of a natural number, as \<open>str(n)\<close> prints them.\<close>

definition digit_char :: "nat \<Rightarrow> char" where
  "digit_char d = char_of (48 + d)"

fun str_nat :: "nat \<Rightarrow> string" where
  "str_nat n = (if n < 10 then [digit_char n] else str_nat (n div 10) @ [digit_char (n mod 10)])"

declare str_nat.simps [simp del]

definition str_int :: "int \<Rightarrow> string" where
  "str_int i = (if i < 0 then CHR ''-'' # str_nat (nat (- i)) else str_nat (nat i))"

text \<open>
  The format specification \<open>{n:0wd}\<close> for a non-negative \<open>n\<close>: the decimal digits,
  padded on the left with zeros up to width \<open>w\<close> and never truncated.
\<close>

definition fmt_0wd :: "nat \<Rightarrow> nat \<Rightarrow> string" where
  "fmt_0wd w n = replicate (w - length (str_nat n)) (CHR ''0'') @ str_nat n"

text \<open>
  Exceptions are values. Every class below derives from Python's \<open>Exception\<close>, which is
  the class all handlers of the sources name (\<open>except Exception\<close>); \<open>Error\<close> stands for
  any other exception derived from \<open>Exception\<close>, given by its text \<open>str(e)\<close>.
\<close>

datatype pyexc =
    HTTPException int string
  | AttributeError string string
  | KeyError string
  | Error string

fun str_exc :: "pyexc \<Rightarrow> string" where
  "str_exc (HTTPException code detail) = str_int code @ '': '' @ detail"
| "str_exc (AttributeError cls attr) =
     [squote] @ cls @ [squote] @ '' object has no attribute '' @ [squote] @ attr @ [squote]"
| "str_exc (KeyError k) = [squote] @ k @ [squote]"
| "str_exc (Error msg) = msg"

text \<open>
  What an awaited call can raise: an exception derived from \<open>Exception\<close>, or one of the
  exceptions that derive from \<open>BaseException\<close> only (\<open>asyncio.CancelledError\<close>,
  \<open>KeyboardInterrupt\<close>, \<open>SystemExit\<close>, \<open>GeneratorExit\<close>), which a handler
  \<open>except Exception\<close> does not catch.
\<close>

datatype signal = CancelledError | KeyboardInterrupt | SystemExit | GeneratorExit

datatype raised = Exc pyexc | Sig signal


section \<open>Configuration settings (\<open>config/config.py\<close>)\<close>

text \<open>
  The fields of the class \<open>Settings\<close> that the functions below read. The class declares
  no field named \<open>redis_url\<close>, \<open>allowed_origins\<close> or \<open>ethics_framework_path\<close>, and its
  \<open>model_config\<close> ignores extra input, so no instance carries such an attribute.
\<close>

record Settings =
  rate_limit_enabled :: bool
  rate_limit_requests :: int
  rate_limit_period :: int
  max_file_size_mb :: int
  allowed_image_types :: string
  allowed_audio_types :: string

definition default_settings :: Settings where
  "default_settings =
     \<lparr> rate_limit_enabled = True,
       rate_limit_requests = 100,
       rate_limit_period = 60,
       max_file_size_mb = 10,
       allowed_image_types = ''jpg,jpeg,png,gif,bmp,webp'',
       allowed_audio_types = ''mp3,wav,ogg,m4a,flac'' \<rparr>"

text \<open>The field constraints of the class (\<open>ge\<close>, \<open>le\<close>) that settings loading enforces.\<close>

definition settings_valid :: "Settings \<Rightarrow> bool" where
  "settings_valid st =
     (1 \<le> rate_limit_requests st \<and> 1 \<le> rate_limit_period st \<and>
      1 \<le> max_file_size_mb st \<and> max_file_size_mb st \<le> 100)"

definition allowed_image_extensions :: "Settings \<Rightarrow> string list" where
  "allowed_image_extensions st =
     map (\<lambda>ext. CHR ''.'' # py_strip ext) (py_split (CHR '','') (allowed_image_types st))"

definition allowed_audio_extensions :: "Settings \<Rightarrow> string list" where
  "allowed_audio_extensions st =
     map (\<lambda>ext. CHR ''.'' # py_strip ext) (py_split (CHR '','') (allowed_audio_types st))"

definition max_file_size_bytes :: "Settings \<Rightarrow> int" where
  "max_file_size_bytes st = max_file_size_mb st * 1024 * 1024"

text \<open>
  Reading an attribute the class does not declare: pydantic's \<open>__getattr__\<close> raises
  \<open>AttributeError\<close>.
\<close>

definition getattr_undeclared :: "Settings \<Rightarrow> string \<Rightarrow> pyexc + 'a" where
  "getattr_undeclared st attr = Inl (AttributeError ''Settings'' attr)"


section \<open>Gemini client adapter (\<open>src/models/gemini_client.py\<close>)\<close>

record capabilities =
  cap_vision :: bool
  cap_functions :: bool
  cap_streaming :: bool
  cap_max_context :: int
  cap_max_output :: int

definition MODEL_CAPABILITIES :: "string \<rightharpoonup> capabilities" where
  "MODEL_CAPABILITIES =
     [ ''gemini-2.5-flash'' \<mapsto>
         \<lparr>cap_vision = True, cap_functions = True, cap_streaming = True, cap_max_context = 1048576, cap_max_output = 8192\<rparr>,
       ''gemini-2.5-pro'' \<mapsto>
         \<lparr>cap_vision = True, cap_functions = True, cap_streaming = True, cap_max_context = 2097152, cap_max_output = 8192\<rparr>,
       ''gemini-1.5-flash'' \<mapsto>
         \<lparr>cap_vision = True, cap_functions = True, cap_streaming = True, cap_max_context = 1048576, cap_max_output = 8192\<rparr>,
       ''gemini-1.5-pro'' \<mapsto>
         \<lparr>cap_vision = True, cap_functions = True, cap_streaming = True, cap_max_context = 2097152, cap_max_output = 8192\<rparr>,
       ''gemini-pro'' \<mapsto>
         \<lparr>cap_vision = False, cap_functions = True, cap_streaming = True, cap_max_context = 32768, cap_max_output = 8192\<rparr>,
       ''gemini-pro-vision'' \<mapsto>
         \<lparr>cap_vision = True, cap_functions = False, cap_streaming = True, cap_max_context = 16384, cap_max_output = 2048\<rparr> ]"

text \<open>
  Each probe is \<open>MODEL_CAPABILITIES.get(self.model, {key: default})[key]\<close>: the table's
  entry when the model is known, the one-key default mapping otherwise.
\<close>

definition supports_functions :: "string \<Rightarrow> bool" where
  "supports_functions model =
     (case MODEL_CAPABILITIES model of Some c \<Rightarrow> cap_functions c | None \<Rightarrow> False)"

definition supports_vision :: "string \<Rightarrow> bool" where
  "supports_vision model =
     (case MODEL_CAPABILITIES model of Some c \<Rightarrow> cap_vision c | None \<Rightarrow> False)"

definition supports_streaming :: "string \<Rightarrow> bool" where
  "supports_streaming model =
     (case MODEL_CAPABILITIES model of Some c \<Rightarrow> cap_streaming c | None \<Rightarrow> True)"

definition max_context_length :: "string \<Rightarrow> int" where
  "max_context_length model =
     (case MODEL_CAPABILITIES model of Some c \<Rightarrow> cap_max_context c | None \<Rightarrow> 32768)"


section \<open>Core HTTP application (\<open>src/main.py\<close>)\<close>

subsection \<open>The image endpoint\<close>

text \<open>
  An uploaded file: the declared content type and the file name (either may be absent)
  and the bytes that \<open>read()\<close> returns.
\<close>

record UploadFile =
  content_type :: "string option"
  filename :: "string option"
  file_bytes :: string

text \<open>
  The agent store maps an agent id to the stored agent. Of the agent the handler uses only
  its \<open>process_image\<close> attribute: \<open>None\<close> when the agent has no such attribute,
  otherwise the method, which takes the image bytes and the prompt.
\<close>

type_synonym 'r image_method = "string \<Rightarrow> string \<Rightarrow> pyexc + 'r"

type_synonym 'r agent_store = "string \<rightharpoonup> 'r image_method option"

text \<open>The body of the handler's \<open>try\<close> block (lines 501 to 515).\<close>

definition process_image_try :: "Settings \<Rightarrow> UploadFile \<Rightarrow> 'r image_method \<Rightarrow> string \<Rightarrow> pyexc + 'r" where
  "process_image_try st upload meth prompt =
     (if (case content_type upload of
            None \<Rightarrow> False
          | Some ct \<Rightarrow> ct \<noteq> [] \<and>
              \<not> list_ex (\<lambda>ext. py_endswith ct (py_strip ext))
                    (py_split (CHR '','') (allowed_image_types st)))
      then Inl (HTTPException 400 ''Unsupported image content type'')
      else if (case filename upload of
                 None \<Rightarrow> False
               | Some fname \<Rightarrow> fname \<noteq> [] \<and>
                   \<not> list_ex (\<lambda>ext. py_endswith (py_lower fname) ext)
                         (allowed_image_extensions st))
      then Inl (HTTPException 400 ''Unsupported image file extension'')
      else if int (length (file_bytes upload)) > max_file_size_bytes st
      then Inl (HTTPException 413 ''Image too large'')
      else meth (file_bytes upload) prompt)"

text \<open>
  The handler \<open>process_image\<close> of \<open>main.py\<close> (lines 479 to 521). The two checks before
  the \<open>try\<close> raise to the framework; whatever the \<open>try\<close> block raises, an
  \<open>HTTPException\<close> of its own included, reaches \<open>except Exception\<close> and is raised again
  with status 500.
\<close>

definition main_process_image ::
  "Settings \<Rightarrow> 'r agent_store \<Rightarrow> string \<Rightarrow> UploadFile \<Rightarrow> string \<Rightarrow> pyexc + 'r" where
  "main_process_image st store agent_id upload prompt =
     (case store agent_id of
        None \<Rightarrow> Inl (HTTPException 404 (''Agent '' @ agent_id @ '' not found''))
      | Some agent \<Rightarrow>
          (case agent of
             None \<Rightarrow> Inl (HTTPException 400 ''This agent does not support image processing'')
           | Some meth \<Rightarrow>
               (case process_image_try st upload meth prompt of
                  Inl e \<Rightarrow> Inl (HTTPException 500 (''Image processing failed: '' @ str_exc e))
                | Inr response \<Rightarrow> Inr response)))"

text \<open>The status code of the HTTP answer: 200 for a returned response.\<close>

fun http_status :: "pyexc + 'r \<Rightarrow> int" where
  "http_status (Inr response) = 200"
| "http_status (Inl (HTTPException code detail)) = code"
| "http_status (Inl e) = 500"

subsection \<open>The security middleware\<close>

text \<open>
  Of a request the middleware reads the \<open>content-length\<close> header and the client's host.
  \<open>content_length_header\<close> is the header as \<open>int()\<close> reads it: \<open>None\<close> when the header
  is absent (the default \<open>"0"\<close> is read) or when \<open>int()\<close> raises \<open>ValueError\<close>; both give 0.
\<close>

record Request =
  content_length_header :: "int option"
  client_host :: "string option"

text \<open>
  The two module globals of the in-process limiter: the start of the current window and
  the per-client counts (a \<open>defaultdict(int)\<close>: a missing key reads 0). The clock
  \<open>time.time()\<close> is a parameter \<open>now\<close>.
\<close>

record limiter =
  rate_window_starts_at :: real
  rate_counts :: "string \<Rightarrow> int"

definition initial_limiter :: limiter where
  "initial_limiter = \<lparr> rate_window_starts_at = 0, rate_counts = (\<lambda>k. 0) \<rparr>"

datatype mw_result = JSONResponse int string | CallNext

text \<open>The in-process fallback (lines 135 to 146): whether the request is limited, and the new globals.\<close>

definition in_process_limiter :: "Settings \<Rightarrow> limiter \<Rightarrow> real \<Rightarrow> Request \<Rightarrow> bool \<times> limiter" where
  "in_process_limiter st gl now req =
     (let window = rate_limit_period st;
          key = (case client_host req of Some h \<Rightarrow> h | None \<Rightarrow> ''unknown'');
          gl1 = (if now - rate_window_starts_at gl > of_int window
                  then \<lparr> rate_window_starts_at = now, rate_counts = (\<lambda>k. 0) \<rparr>
                  else gl);
          gl2 = gl1 \<lparr> rate_counts := (rate_counts gl1) (key := rate_counts gl1 key + 1) \<rparr>
      in (rate_counts gl2 key > rate_limit_requests st, gl2))"

text \<open>
  The body of the limiter's \<open>try\<close> block (lines 120 to 146). Its first statement reads
  \<open>settings.redis_url\<close>. The Redis branch talks to an external service: \<open>redis_incr\<close>
  stands for \<open>INCR\<close> on the key (with \<open>EXPIRE\<close> on the first count), which returns the
  count or raises.
\<close>

definition limiter_try ::
  "Settings \<Rightarrow> (string \<Rightarrow> string \<Rightarrow> pyexc + int) \<Rightarrow> limiter \<Rightarrow> real \<Rightarrow> Request \<Rightarrow> pyexc + bool \<times> limiter" where
  "limiter_try st redis_incr gl now req =
     (case (getattr_undeclared st ''redis_url'' :: pyexc + string option) of
        Inl e \<Rightarrow> Inl e
      | Inr None \<Rightarrow> Inr (in_process_limiter st gl now req)
      | Inr (Some url) \<Rightarrow>
          (if url \<noteq> []
           then (case redis_incr url
                        (''rate:'' @ (case client_host req of Some h \<Rightarrow> h | None \<Rightarrow> ''unknown'')) of
                   Inl e \<Rightarrow> Inl e
                 | Inr count \<Rightarrow> Inr (count > rate_limit_requests st, gl))
           else Inr (in_process_limiter st gl now req)))"

text \<open>
  \<open>security_middleware\<close> (lines 102 to 158): the answer (a JSON response of the
  middleware's own, or the request handed on with \<open>call_next\<close>) and the limiter's globals
  afterwards. An exception of the limiter leaves \<open>limited\<close> false.
\<close>

definition security_middleware ::
  "Settings \<Rightarrow> (string \<Rightarrow> string \<Rightarrow> pyexc + int) \<Rightarrow> limiter \<Rightarrow> real \<Rightarrow> Request \<Rightarrow> mw_result \<times> limiter" where
  "security_middleware st redis_incr gl now req =
     (let content_length = (case content_length_header req of Some n \<Rightarrow> n | None \<Rightarrow> 0)
      in if content_length \<noteq> 0 \<and> content_length > max_file_size_bytes st
         then (JSONResponse 413 ''Payload too large'', gl)
         else if rate_limit_enabled st
         then (case limiter_try st redis_incr gl now req of
                 Inl e \<Rightarrow> (CallNext, gl)
               | Inr (limited, gl') \<Rightarrow>
                   if limited then (JSONResponse 429 ''Rate limit exceeded'', gl')
                   else (CallNext, gl'))
         else (CallNext, gl))"

text \<open>A run of requests, each with the clock reading at its arrival, through the middleware in order.\<close>

fun serve ::
  "Settings \<Rightarrow> (string \<Rightarrow> string \<Rightarrow> pyexc + int) \<Rightarrow> limiter \<Rightarrow> (real \<times> Request) list \<Rightarrow> mw_result list" where
  "serve st redis_incr gl [] = []"
| "serve st redis_incr gl ((now, req) # rest) =
     (case security_middleware st redis_incr gl now req of
        (answer, gl') \<Rightarrow> answer # serve st redis_incr gl' rest)"


section \<open>Grounding document loader (\<open>src/utils/grounding.py\<close>)\<close>

definition newline :: char where
  "newline = CHR 0x0A"

fun py_join :: "string \<Rightarrow> string list \<Rightarrow> string" where
  "py_join sep [] = []"
| "py_join sep [x] = x"
| "py_join sep (x # y # ys) = x @ sep @ py_join sep (y # ys)"

text \<open>The slice \<open>s[:n]\<close>; a negative \<open>n\<close> counts from the end.\<close>

definition py_slice_to :: "int \<Rightarrow> 'a list \<Rightarrow> 'a list" where
  "py_slice_to n s = (if 0 \<le> n then take (nat n) s else take (length s - nat (- n)) s)"

text \<open>\<open>Path.suffix\<close> of a file name: from the last dot on, unless that dot is the first or the last character.\<close>

definition path_suffix :: "string \<Rightarrow> string" where
  "path_suffix fname =
     (let e = takeWhile (\<lambda>c. c \<noteq> CHR ''.'') (rev fname)
      in if length e < length fname \<and> 0 < length e \<and> length e + 1 < length fname
         then CHR ''.'' # rev e else [])"

text \<open>
  What the loader sees of the file system. An entry of the directory walk has its name,
  whether it is a regular file, what \<open>read_text\<close> gives (the text, or the exception
  raised) and what \<open>PdfReader\<close> gives (the pages, each with the outcome of
  \<open>extract_text\<close>, or the exception raised). The walk \<open>p.glob("**/*")\<close> is a list of
  steps: an entry, or an exception raised by the iteration itself. The file system maps
  the configured path to \<open>None\<close> when it does not exist or is no directory, to its walk
  otherwise, or to the exception that \<open>expanduser\<close>, \<open>exists\<close> or \<open>is_dir\<close> raised.
\<close>

record dir_entry =
  entry_name :: string
  entry_is_file :: bool
  entry_read_text :: "pyexc + string"
  entry_pdf_pages :: "pyexc + (pyexc + string option) list"

datatype glob_step = Entry dir_entry | GlobRaises pyexc

type_synonym grounding_fs = "string \<Rightarrow> pyexc + glob_step list option"

text \<open>A dictionary with string keys, in insertion order; storing under a key that is present replaces its value.\<close>

fun dict_set :: "string \<Rightarrow> 'v \<Rightarrow> (string \<times> 'v) list \<Rightarrow> (string \<times> 'v) list" where
  "dict_set k v [] = [(k, v)]"
| "dict_set k v ((k', v') # kvs) =
     (if k = k' then (k, v) # kvs else (k', v') # dict_set k v kvs)"

fun pdf_text_parts :: "(pyexc + string option) list \<Rightarrow> string list" where
  "pdf_text_parts [] = []"
| "pdf_text_parts (Inl e # pages) = pdf_text_parts pages"
| "pdf_text_parts (Inr None # pages) = [] # pdf_text_parts pages"
| "pdf_text_parts (Inr (Some t) # pages) = t # pdf_text_parts pages"

text \<open>
  The loop over the walk (lines 31 to 49); \<open>pdf_reader\<close> says whether \<open>PdfReader\<close> was
  imported. An exception of the iteration ends the loop with the documents read so far.
\<close>

fun load_entries :: "bool \<Rightarrow> glob_step list \<Rightarrow> (string \<times> string) list \<Rightarrow> (string \<times> string) list" where
  "load_entries pdf_reader [] results = results"
| "load_entries pdf_reader (GlobRaises e # rest) results = results"
| "load_entries pdf_reader (Entry f # rest) results =
     (let suffix_lower = py_lower (path_suffix (entry_name f))
      in if entry_is_file f \<and> List.member [''.md'', ''.txt'', ''.json''] suffix_lower
         then (case entry_read_text f of
                 Inl e \<Rightarrow> load_entries pdf_reader rest results
               | Inr t \<Rightarrow> load_entries pdf_reader rest (dict_set (entry_name f) t results))
         else if entry_is_file f \<and> suffix_lower = ''.pdf'' \<and> pdf_reader
         then (case entry_pdf_pages f of
                 Inl e \<Rightarrow> load_entries pdf_reader rest results
               | Inr pages \<Rightarrow>
                   load_entries pdf_reader rest
                     (dict_set (entry_name f) (py_join [newline] (pdf_text_parts (take 50 pages))) results))
         else load_entries pdf_reader rest results)"

text \<open>
  \<open>load_grounding_documents\<close> (lines 18 to 52). The read of
  \<open>settings.ethics_framework_path\<close> on line 24 stands before the \<open>try\<close> block.
\<close>

definition load_grounding_documents :: "Settings \<Rightarrow> grounding_fs \<Rightarrow> bool \<Rightarrow> pyexc + (string \<times> string) list" where
  "load_grounding_documents st fs pdf_reader =
     (case (getattr_undeclared st ''ethics_framework_path'' :: pyexc + string) of
        Inl e \<Rightarrow> Inl e
      | Inr path \<Rightarrow>
          (let base = py_strip path
           in if base = [] then Inr []
              else (case fs base of
                      Inl e \<Rightarrow> Inr []
                    | Inr None \<Rightarrow> Inr []
                    | Inr (Some steps) \<Rightarrow> Inr (load_entries pdf_reader steps []))))"

fun summary_parts :: "int \<Rightarrow> (string \<times> string) list \<Rightarrow> string list \<Rightarrow> string list" where
  "summary_parts max_chars [] parts = parts"
| "summary_parts max_chars ((doc_name, doc_text) # rest) parts =
     (let parts' = parts @ [''## '' @ doc_name @ [newline] @ doc_text @ [newline]]
      in if int (sum_list (map length parts')) > max_chars then parts'
         else summary_parts max_chars rest parts')"

definition get_grounding_summary :: "Settings \<Rightarrow> grounding_fs \<Rightarrow> bool \<Rightarrow> int \<Rightarrow> pyexc + string" where
  "get_grounding_summary st fs pdf_reader max_chars =
     (case load_grounding_documents st fs pdf_reader of
        Inl e \<Rightarrow> Inl e
      | Inr docs \<Rightarrow>
          Inr (if docs = [] then []
               else py_slice_to max_chars
                      (py_join [newline] (summary_parts max_chars (sort_key fst docs) []))))"


section \<open>Recursive loop closure ledger (\<open>src/utils/training_utils.py\<close>)\<close>

subsection \<open>Dynamic values and the clock\<close>

text \<open>
  The values a ledger field can hold at run time: a string, \<open>None\<close>, an integer, a
  boolean, or the float \<open>nan\<close> that pandas stores for a missing cell.
\<close>

datatype pyval = PyStr string | PyNone | PyInt int | PyBool bool | PyNaN

fun truthy :: "pyval \<Rightarrow> bool" where
  "truthy (PyStr s) = (s \<noteq> [])"
| "truthy PyNone = False"
| "truthy (PyInt i) = (i \<noteq> 0)"
| "truthy (PyBool b) = b"
| "truthy PyNaN = True"

text \<open>\<open>str(v)\<close>.\<close>

fun py_str :: "pyval \<Rightarrow> string" where
  "py_str (PyStr s) = s"
| "py_str PyNone = ''None''"
| "py_str (PyInt i) = str_int i"
| "py_str (PyBool b) = (if b then ''True'' else ''False'')"
| "py_str PyNaN = ''nan''"

text \<open>\<open>isinstance(v, str) and v.strip()\<close>, read as a truth value.\<close>

fun is_nonblank_str :: "pyval \<Rightarrow> bool" where
  "is_nonblank_str (PyStr s) = (py_strip s \<noteq> [])"
| "is_nonblank_str v = False"

text \<open>
  The specification's words for a rejected argument: it "is not a string or is empty after
  trimming whitespace".
\<close>

definition not_string_or_blank :: "pyval \<Rightarrow> bool" where
  "not_string_or_blank v = (case v of PyStr s \<Rightarrow> py_strip s = [] | _ \<Rightarrow> True)"

text \<open>
  A naive \<open>datetime\<close> as \<open>datetime.utcnow()\<close> returns it. The class keeps its fields
  within the ranges of \<open>valid_datetime\<close>.
\<close>

record datetime =
  dt_year :: nat
  dt_month :: nat
  dt_day :: nat
  dt_hour :: nat
  dt_minute :: nat
  dt_second :: nat
  dt_microsecond :: nat

definition is_leap :: "nat \<Rightarrow> bool" where
  "is_leap y = (y mod 4 = 0 \<and> (y mod 100 \<noteq> 0 \<or> y mod 400 = 0))"

definition days_in_month :: "nat \<Rightarrow> nat \<Rightarrow> nat" where
  "days_in_month y m =
     (if m = 2 then (if is_leap y then 29 else 28)
      else if m = 4 \<or> m = 6 \<or> m = 9 \<or> m = 11 then 30 else 31)"

definition valid_datetime :: "datetime \<Rightarrow> bool" where
  "valid_datetime d =
     (1 \<le> dt_year d \<and> dt_year d \<le> 9999 \<and> 1 \<le> dt_month d \<and> dt_month d \<le> 12 \<and>
      1 \<le> dt_day d \<and> dt_day d \<le> days_in_month (dt_year d) (dt_month d) \<and>
      dt_hour d < 24 \<and> dt_minute d < 60 \<and> dt_second d < 60 \<and> dt_microsecond d < 1000000)"

text \<open>\<open>datetime.isoformat()\<close>: the fraction is printed only when the microseconds are not zero.\<close>

definition isoformat :: "datetime \<Rightarrow> string" where
  "isoformat d =
     fmt_0wd 4 (dt_year d) @ ''-'' @ fmt_0wd 2 (dt_month d) @ ''-'' @ fmt_0wd 2 (dt_day d) @
     ''T'' @ fmt_0wd 2 (dt_hour d) @ '':'' @ fmt_0wd 2 (dt_minute d) @ '':'' @ fmt_0wd 2 (dt_second d) @
     (if dt_microsecond d \<noteq> 0 then ''.'' @ fmt_0wd 6 (dt_microsecond d) else [])"

text \<open>
  Reading a timestamp back. \<open>parse_iso8601\<close> follows the specification's words
  ("parses as a valid ISO-8601 instant"): it accepts the extended calendar date and time of
  day \<open>YYYY-MM-DDThh:mm:ss\<close> with an optional fraction of six digits, as
  \<open>datetime.fromisoformat\<close> does for these two shapes, and returns the instant when its
  fields are in range.
\<close>

definition is_digit :: "char \<Rightarrow> bool" where
  "is_digit c = (48 \<le> (of_char c :: nat) \<and> (of_char c :: nat) \<le> 57)"

definition digits_value :: "string \<Rightarrow> nat" where
  "digits_value s = foldl (\<lambda>a c. 10 * a + (of_char c - 48)) 0 s"

definition parse_digits :: "string \<Rightarrow> nat option" where
  "parse_digits s = (if s \<noteq> [] \<and> list_all is_digit s then Some (digits_value s) else None)"

definition parse_iso8601 :: "string \<Rightarrow> datetime option" where
  "parse_iso8601 s =
     (if (length s = 19 \<or> (length s = 26 \<and> s ! 19 = CHR ''.'')) \<and>
         s ! 4 = CHR ''-'' \<and> s ! 7 = CHR ''-'' \<and> s ! 10 = CHR ''T'' \<and>
         s ! 13 = CHR '':'' \<and> s ! 16 = CHR '':''
      then Option.bind (parse_digits (take 4 s)) (\<lambda>y.
           Option.bind (parse_digits (take 2 (drop 5 s))) (\<lambda>mo.
           Option.bind (parse_digits (take 2 (drop 8 s))) (\<lambda>d.
           Option.bind (parse_digits (take 2 (drop 11 s))) (\<lambda>h.
           Option.bind (parse_digits (take 2 (drop 14 s))) (\<lambda>mi.
           Option.bind (parse_digits (take 2 (drop 17 s))) (\<lambda>se.
           Option.bind (if length s = 26 then parse_digits (drop 20 s) else Some 0) (\<lambda>us.
             (let dt = \<lparr> dt_year = y, dt_month = mo, dt_day = d, dt_hour = h, dt_minute = mi,
                         dt_second = se, dt_microsecond = us \<rparr>
              in if valid_datetime dt then Some dt else None))))))))
      else None)"

subsection \<open>Rows, the recognition agent and the ledger\<close>

record RecursiveLoop =
  loop_id :: pyval
  topic :: pyval
  hypothesis :: pyval
  pattern :: pyval
  rl_structure :: pyval
  why_closed :: pyval
  timestamp :: pyval

text \<open>The dataclass constructor with \<open>__post_init__\<close>: a falsy timestamp is replaced by the clock's.\<close>

definition new_RecursiveLoop ::
  "datetime \<Rightarrow> pyval \<Rightarrow> pyval \<Rightarrow> pyval \<Rightarrow> pyval \<Rightarrow> pyval \<Rightarrow> pyval \<Rightarrow> pyval \<Rightarrow> RecursiveLoop" where
  "new_RecursiveLoop now lid tp hyp pat struct why ts =
     \<lparr> loop_id = lid, topic = tp, hypothesis = hyp, pattern = pat, rl_structure = struct,
       why_closed = why,
       timestamp = (if \<not> truthy ts then PyStr (isoformat now) else ts) \<rparr>"

text \<open>
  \<open>ClosureRecognitionAgent\<close>: its state is the list of accepted triples.
  \<open>detect_closure\<close> returns the verdict and the new state.
\<close>

type_synonym recognition_agent = "(pyval \<times> pyval \<times> pyval) list"

definition detect_closure :: "recognition_agent \<Rightarrow> pyval \<Rightarrow> pyval \<Rightarrow> pyval \<Rightarrow> bool \<times> recognition_agent" where
  "detect_closure agent hyp pat struct =
     (if list_all is_nonblank_str [hyp, pat, struct]
      then (True, agent @ [(hyp, pat, struct)])
      else (False, agent))"

record Ledger =
  ledger_file :: "string option"
  closed_loops :: "RecursiveLoop list"
  closure_recognition_agent :: recognition_agent

text \<open>\<open>if self.ledger_file\<close>: a path that is neither \<open>None\<close> nor empty.\<close>

definition ledger_path :: "Ledger \<Rightarrow> string option" where
  "ledger_path L = (case ledger_file L of None \<Rightarrow> None | Some f \<Rightarrow> (if f = [] then None else Some f))"

subsection \<open>Tables and their files\<close>

text \<open>
  A pandas \<open>DataFrame\<close>: the column names in order and the rows of cells. A ledger file is
  represented by its header and its records of fields, that is, by the text of the CSV file
  with the quoting taken off; the file system maps a path to the file, if it exists, and
  writing a file succeeds.

  pandas is not part of the repository. \<open>to_csv\<close> and \<open>read_csv\<close> model its documented
  defaults as far as the ledger depends on them: \<open>to_csv(index=False)\<close> writes a string as
  it is, and \<open>None\<close> and \<open>nan\<close> as the empty field; \<open>read_csv\<close> takes the first record as
  the header and turns every field that is one of the default missing-value markers into
  \<open>nan\<close> (\<open>na_values\<close> lists the markers of \<open>keep_default_na=True\<close>). The reader's
  conversion of all-numeric and all-boolean columns to numbers and booleans is not
  modelled: such fields stay strings here. A record shorter than the header is padded with
  \<open>nan\<close>; a file without a header is answered with the reader's error, and so is, in this
  model, a record longer than the header. Quoting and line ends belong to the text of the
  file and are not represented.
\<close>

record dataframe =
  df_columns :: "string list"
  df_rows :: "pyval list list"

record csv_file =
  csv_header :: "string list"
  csv_records :: "string list list"

type_synonym files = "string \<rightharpoonup> csv_file"

fun csv_field :: "pyval \<Rightarrow> string" where
  "csv_field (PyStr s) = s"
| "csv_field PyNone = []"
| "csv_field (PyInt i) = str_int i"
| "csv_field (PyBool b) = (if b then ''True'' else ''False'')"
| "csv_field PyNaN = []"

definition to_csv :: "dataframe \<Rightarrow> csv_file" where
  "to_csv df = \<lparr> csv_header = df_columns df, csv_records = map (map csv_field) (df_rows df) \<rparr>"

definition na_values :: "string list" where
  "na_values =
     [ [], ''#N/A'', ''#N/A N/A'', ''#NA'', ''-1.#IND'', ''-1.#QNAN'', ''-NaN'', ''-nan'',
       ''1.#IND'', ''1.#QNAN'', ''<NA>'', ''N/A'', ''NA'', ''NULL'', ''NaN'', ''None'',
       ''n/a'', ''nan'', ''null'' ]"

definition read_cell :: "string \<Rightarrow> pyval" where
  "read_cell field = (if List.member na_values field then PyNaN else PyStr field)"

definition read_csv :: "csv_file \<Rightarrow> pyexc + dataframe" where
  "read_csv f =
     (if csv_header f = [] then Inl (Error ''No columns to parse from file'')
      else if list_ex (\<lambda>r. length r > length (csv_header f)) (csv_records f)
      then Inl (Error ''Error tokenizing data'')
      else Inr \<lparr> df_columns = csv_header f,
                 df_rows = map (\<lambda>r. map read_cell r @
                                     replicate (length (csv_header f) - length r) PyNaN)
                               (csv_records f) \<rparr>)"

text \<open>\<open>row[name]\<close> raises \<open>KeyError\<close> for a column the frame lacks; \<open>row.get(name, default)\<close> gives the default.\<close>

fun row_lookup :: "string list \<Rightarrow> pyval list \<Rightarrow> string \<Rightarrow> pyval option" where
  "row_lookup [] cells col = None"
| "row_lookup (c # cs) [] col = None"
| "row_lookup (c # cs) (v # vs) col = (if c = col then Some v else row_lookup cs vs col)"

definition row_getitem :: "string list \<Rightarrow> pyval list \<Rightarrow> string \<Rightarrow> pyexc + pyval" where
  "row_getitem cols cells col =
     (case row_lookup cols cells col of None \<Rightarrow> Inl (KeyError col) | Some v \<Rightarrow> Inr v)"

definition row_get :: "string list \<Rightarrow> pyval list \<Rightarrow> string \<Rightarrow> pyval \<Rightarrow> pyval" where
  "row_get cols cells col dflt =
     (case row_lookup cols cells col of None \<Rightarrow> dflt | Some v \<Rightarrow> v)"

subsection \<open>Ledger operations\<close>

definition ledger_columns :: "string list" where
  "ledger_columns =
     [''Loop ID'', ''Topic'', ''Hypothesis'', ''Pattern'', ''Structure'', ''Why Closed'', ''Timestamp'']"

definition ledger_row :: "RecursiveLoop \<Rightarrow> pyval list" where
  "ledger_row loop =
     [loop_id loop, topic loop, hypothesis loop, pattern loop, rl_structure loop, why_closed loop,
      timestamp loop]"

text \<open>\<open>get_ledger_df\<close>: \<open>pd.DataFrame\<close> of a list of mappings; an empty list gives a frame without columns.\<close>

definition get_ledger_df :: "Ledger \<Rightarrow> dataframe" where
  "get_ledger_df L =
     (if closed_loops L = [] then \<lparr> df_columns = [], df_rows = [] \<rparr>
      else \<lparr> df_columns = ledger_columns, df_rows = map ledger_row (closed_loops L) \<rparr>)"

definition save_ledger :: "Ledger \<Rightarrow> files \<Rightarrow> files" where
  "save_ledger L fs =
     (case ledger_path L of
        None \<Rightarrow> fs
      | Some f \<Rightarrow> fs (f \<mapsto> to_csv (get_ledger_df L)))"

text \<open>The loop of \<open>load_ledger\<close> over the rows of the frame (lines 122 to 132).\<close>

definition load_row :: "datetime \<Rightarrow> string list \<Rightarrow> pyval list \<Rightarrow> pyexc + RecursiveLoop" where
  "load_row now cols cells =
     (case row_getitem cols cells ''Loop ID'' of Inl e \<Rightarrow> Inl e | Inr lid \<Rightarrow>
      case row_getitem cols cells ''Topic'' of Inl e \<Rightarrow> Inl e | Inr tp \<Rightarrow>
      case row_getitem cols cells ''Hypothesis'' of Inl e \<Rightarrow> Inl e | Inr hyp \<Rightarrow>
      case row_getitem cols cells ''Pattern'' of Inl e \<Rightarrow> Inl e | Inr pat \<Rightarrow>
      case row_getitem cols cells ''Structure'' of Inl e \<Rightarrow> Inl e | Inr struct \<Rightarrow>
      case row_getitem cols cells ''Why Closed'' of Inl e \<Rightarrow> Inl e | Inr why \<Rightarrow>
      Inr (new_RecursiveLoop now lid tp hyp pat struct why
             (row_get cols cells ''Timestamp'' (PyStr []))))"

fun load_rows :: "datetime \<Rightarrow> string list \<Rightarrow> pyval list list \<Rightarrow> pyexc + RecursiveLoop list" where
  "load_rows now cols [] = Inr []"
| "load_rows now cols (cells # rest) =
     (case load_row now cols cells of
        Inl e \<Rightarrow> Inl e
      | Inr loop \<Rightarrow>
          (case load_rows now cols rest of
             Inl e \<Rightarrow> Inl e
           | Inr loops \<Rightarrow> Inr (loop # loops)))"

definition load_ledger :: "datetime \<Rightarrow> files \<Rightarrow> Ledger \<Rightarrow> pyexc + Ledger" where
  "load_ledger now fs L =
     (case ledger_path L of
        None \<Rightarrow> Inr L
      | Some f \<Rightarrow>
          (case fs f of
             None \<Rightarrow> Inr L
           | Some file \<Rightarrow>
               (case read_csv file of
                  Inl e \<Rightarrow> Inl e
                | Inr df \<Rightarrow>
                    (case load_rows now (df_columns df) (df_rows df) of
                       Inl e \<Rightarrow> Inl e
                     | Inr loops \<Rightarrow> Inr (L \<lparr> closed_loops := loops \<rparr>)))))"

text \<open>The constructor \<open>RecursiveLoopClosureLedger(ledger_file)\<close> (lines 35 to 46).\<close>

definition new_Ledger :: "datetime \<Rightarrow> files \<Rightarrow> string option \<Rightarrow> pyexc + Ledger" where
  "new_Ledger now fs path =
     (let L = \<lparr> ledger_file = path, closed_loops = [], closure_recognition_agent = [] \<rparr>
      in case ledger_path L of
           None \<Rightarrow> Inr L
         | Some f \<Rightarrow> (if fs f \<noteq> None then load_ledger now fs L else Inr L))"

text \<open>
  \<open>detect_and_log_closure\<close> (lines 48 to 86): the returned boolean, the ledger and the
  file system afterwards. \<open>hypothesis\<close>, \<open>pattern\<close> and \<open>structure\<close> are dynamic values
  (the recognition agent tests whether they are strings); \<open>explanation\<close> and \<open>topic\<close> are
  strings.
\<close>

definition detect_and_log_closure ::
  "datetime \<Rightarrow> files \<Rightarrow> Ledger \<Rightarrow> pyval \<Rightarrow> pyval \<Rightarrow> pyval \<Rightarrow> string \<Rightarrow> string \<Rightarrow> bool \<times> Ledger \<times> files" where
  "detect_and_log_closure now fs L hyp pat struct explanation tp =
     (let (accepted, agent') = detect_closure (closure_recognition_agent L) hyp pat struct
      in if accepted
         then (let n = length (closed_loops L) + 1;
                   loop = new_RecursiveLoop now
                            (PyStr (''RL-'' @ fmt_0wd 3 n))
                            (PyStr (if tp \<noteq> [] then tp else ''Loop '' @ str_nat n))
                            hyp pat struct (PyStr explanation) PyNone;
                   L' = L \<lparr> closed_loops := closed_loops L @ [loop],
                            closure_recognition_agent := agent' \<rparr>
               in (True, L', save_ledger L' fs))
         else (False, L \<lparr> closure_recognition_agent := agent' \<rparr>, fs))"


section \<open>Guardian agent (\<open>src/agents/guardian_agent.py\<close>)\<close>

definition REQUIRED_COLUMNS :: "string list" where
  "REQUIRED_COLUMNS =
     [''Loop ID'', ''Topic'', ''Hypothesis'', ''Pattern'', ''Structure'', ''Why Closed'', ''Timestamp'']"

definition is_null :: "pyval \<Rightarrow> bool" where
  "is_null v = (v = PyNaN \<or> v = PyNone)"

text \<open>The cells of one column, by its position among the columns.\<close>

definition column_cells :: "dataframe \<Rightarrow> nat \<Rightarrow> pyval list" where
  "column_cells df i = map (\<lambda>r. r ! i) (df_rows df)"

fun index_of :: "string list \<Rightarrow> string \<Rightarrow> nat option" where
  "index_of [] col = None"
| "index_of (c # cs) col = (if c = col then Some 0 else map_option Suc (index_of cs col))"

text \<open>\<open>df.isnull().sum().to_dict()\<close>: for each column the number of missing cells.\<close>

definition null_counts :: "dataframe \<Rightarrow> (string \<times> nat) list" where
  "null_counts df =
     map (\<lambda>i. (df_columns df ! i, length (filter is_null (column_cells df i))))
       [0 ..< length (df_columns df)]"

fun count_seen :: "'a list \<Rightarrow> 'a list \<Rightarrow> nat" where
  "count_seen seen [] = 0"
| "count_seen seen (x # xs) = (if List.member seen x then 1 else 0) + count_seen (x # seen) xs"

text \<open>
  \<open>df.duplicated(subset=[col]).sum()\<close>: the number of rows whose value in the column
  repeats that of an earlier row. pandas answers an empty frame first; otherwise a
  \<open>subset\<close> column that the frame lacks raises \<open>KeyError\<close>.
\<close>

definition duplicated_sum :: "dataframe \<Rightarrow> string \<Rightarrow> pyexc + nat" where
  "duplicated_sum df col =
     (if df_rows df = [] \<or> df_columns df = [] then Inr 0
      else (case index_of (df_columns df) col of
              None \<Rightarrow> Inl (KeyError col)
            | Some i \<Rightarrow> Inr (count_seen [] (column_cells df i))))"

record scan_details =
  scan_status :: string
  scan_rows :: nat
  scan_columns :: "string list"
  missing_columns :: "string list"
  rows_missing_data :: "(string \<times> nat) list"
  duplicated_loop_ids :: nat
  scan_hash :: string

datatype scan_report = NoLedger string string | Scanned scan_details

fun report_status :: "scan_report \<Rightarrow> string" where
  "report_status (NoLedger status_text msg) = status_text"
| "report_status (Scanned d) = scan_status d"

text \<open>
  \<open>scan_ledger\<close> (lines 20 to 39). The content hash is a parameter \<open>hash_frame\<close> (pandas'
  row hashes under SHA-256).
\<close>

definition scan_ledger :: "(dataframe \<Rightarrow> string) \<Rightarrow> files \<Rightarrow> string \<Rightarrow> pyexc + scan_report" where
  "scan_ledger hash_frame fs path =
     (case fs path of
        None \<Rightarrow> Inr (NoLedger ''error'' (''No ledger found at '' @ path))
      | Some file \<Rightarrow>
          (case read_csv file of
             Inl e \<Rightarrow> Inl e
           | Inr df \<Rightarrow>
               (let missing_cols = filter (\<lambda>c. \<not> List.member (df_columns df) c) REQUIRED_COLUMNS;
                    missing_data = null_counts df
                in case duplicated_sum df ''Loop ID'' of
                     Inl e \<Rightarrow> Inl e
                   | Inr duplicate_loops \<Rightarrow>
                       Inr (Scanned
                         \<lparr> scan_status =
                             (if missing_cols = [] \<and> \<not> list_ex (list_ex is_null) (df_rows df)
                                 \<and> duplicate_loops = 0
                              then ''ok'' else ''warn''),
                           scan_rows = length (df_rows df),
                           scan_columns = df_columns df,
                           missing_columns = missing_cols,
                           rows_missing_data = filter (\<lambda>(k, v). v \<noteq> 0) missing_data,
                           duplicated_loop_ids = duplicate_loops,
                           scan_hash = hash_frame df \<rparr>))))"


section \<open>Base agent framework (\<open>src/agents/base_agent.py\<close>)\<close>

subsection \<open>Messages, memory, configuration and responses\<close>

datatype MessageRole = SYSTEM | USER | ASSISTANT | FUNCTION

text \<open>
  A message; \<open>name\<close> and \<open>function_call\<close> keep their default \<open>None\<close>. The dataclass
  does not validate its content, whose type is a parameter here: \<open>string\<close> where the
  source builds every message from a string, the dynamic values \<open>pyval\<close> where it stores
  a value it received (an observation, what an adapter's reply holds).
\<close>

record 'c Message =
  role :: MessageRole
  content :: 'c

datatype AgentState = IDLE | THINKING | EXECUTING | WAITING | ERROR | COMPLETED

fun state_value :: "AgentState \<Rightarrow> string" where
  "state_value IDLE = ''idle''"
| "state_value THINKING = ''thinking''"
| "state_value EXECUTING = ''executing''"
| "state_value WAITING = ''waiting''"
| "state_value ERROR = ''error''"
| "state_value COMPLETED = ''completed''"

text \<open>The slice \<open>xs[-k:]\<close>: the last \<open>k\<close> elements for a positive \<open>k\<close>, everything for \<open>k = 0\<close>.\<close>

definition py_last :: "int \<Rightarrow> 'a list \<Rightarrow> 'a list" where
  "py_last k xs =
     (if 0 < k then drop (length xs - nat k) xs
      else if k = 0 then xs
      else drop (nat (- k)) xs)"

text \<open>
  \<open>AgentMemory\<close>: the short-term list and its capacity. The long-term, episodic and
  semantic stores are not touched by the operations below and are left out.
\<close>

record 'c AgentMemory =
  short_term :: "'c Message list"
  max_short_term_size :: int

definition add_to_short_term :: "'c AgentMemory \<Rightarrow> 'c Message \<Rightarrow> 'c AgentMemory" where
  "add_to_short_term mem m =
     (let appended = short_term mem @ [m]
      in mem \<lparr> short_term :=
                 (if int (length appended) > max_short_term_size mem
                  then py_last (max_short_term_size mem) appended
                  else appended) \<rparr>)"

definition get_context :: "'c AgentMemory \<Rightarrow> int \<Rightarrow> 'c Message list" where
  "get_context mem max_messages =
     (if short_term mem \<noteq> [] then py_last max_messages (short_term mem) else [])"

record AgentConfig =
  name :: string
  model_provider :: string
  temperature :: real
  max_tokens :: int
  system_prompt :: "string option"
  enable_memory :: bool
  enable_recursive_closure :: bool

datatype meta_value = MetaStr string | MetaDict "(string \<times> string) list"

record AgentResponse =
  agent_id :: string
  agent_name :: string
  response_content :: string
  raw_response :: "string option"
  metadata :: "(string \<times> meta_value) list"
  response_timestamp :: string
  response_state :: string
  error :: "string option"
  usage :: "(string \<times> int) list option"

text \<open>
  The validation that the constructor \<open>AgentResponse(...)\<close> performs on the two fields
  that callers fill with values they did not build themselves (pydantic 2, which the
  configuration module requires): \<open>content: str\<close> accepts a string only,
  \<open>usage: Optional[Dict[str, int]]\<close> accepts \<open>None\<close> or such a mapping. Of a \<open>usage\<close>
  value it matters whether it is \<open>None\<close>, a mapping the model accepts, or anything else.
  A refusal raises pydantic's \<open>ValidationError\<close>, which derives from \<open>Exception\<close>; of
  its text the first line is kept.
\<close>

datatype usage_value = UsageNone | UsageDict "(string \<times> int) list" | UsageInvalid

definition validation_error :: "nat \<Rightarrow> pyexc" where
  "validation_error n =
     Error (str_nat n @ '' validation error'' @ (if n = 1 then [] else ''s'') @ '' for AgentResponse'')"

fun content_accepted :: "pyval \<Rightarrow> string option" where
  "content_accepted (PyStr s) = Some s"
| "content_accepted v = None"

fun usage_accepted :: "usage_value \<Rightarrow> (string \<times> int) list option option" where
  "usage_accepted UsageNone = Some None"
| "usage_accepted (UsageDict d) = Some (Some d)"
| "usage_accepted UsageInvalid = None"

definition validate_response_fields ::
  "pyval \<Rightarrow> usage_value \<Rightarrow> pyexc + string \<times> (string \<times> int) list option" where
  "validate_response_fields c u =
     (case content_accepted c of
        Some s \<Rightarrow>
          (case usage_accepted u of
             Some use \<Rightarrow> Inr (s, use)
           | None \<Rightarrow> Inl (validation_error 1))
      | None \<Rightarrow>
          (case usage_accepted u of
             Some use \<Rightarrow> Inl (validation_error 1)
           | None \<Rightarrow> Inl (validation_error 2)))"

text \<open>
  The LLM adapter. A call of \<open>generate\<close> is recorded by its arguments: the message list,
  the optional image and the two keyword arguments every caller passes; the call returns
  an \<open>LLMResponse\<close> or raises.
\<close>

record LLMResponse =
  llm_content :: string
  llm_model :: string
  llm_usage :: "(string \<times> int) list"
  llm_raw_response :: "string option"

record 'c generate_call =
  call_messages :: "'c Message list"
  call_image :: "string option"
  call_temperature :: real
  call_max_tokens :: int

type_synonym llm_client = "string generate_call \<Rightarrow> pyexc + LLMResponse"

text \<open>
  The agent's own state, as both trees have it: identifier, class name, configuration,
  state, memory (present only when the configuration enables it) and conversation history.
  The creation and last-activity timestamps, the tool list and the adapter (a parameter of
  the operations below) are left out. The base agent of the authoritative tree adds the
  optional closure ledger.
\<close>

record 'c Agent =
  ident :: string
  class_name :: string
  config :: AgentConfig
  state :: AgentState
  memory :: "'c AgentMemory option"
  conversation_history :: "'c Message list"

record 'c BaseAgent = "'c Agent" +
  closure_ledger :: "Ledger option"

text \<open>
  The constructor of the authoritative tree (lines 107 to 139); the random identifier is a
  parameter. The per-agent ledger is backed by a file named from the identifier, and an
  existing file is loaded.
\<close>

definition new_BaseAgent ::
  "datetime \<Rightarrow> files \<Rightarrow> string \<Rightarrow> string \<Rightarrow> AgentConfig \<Rightarrow> pyexc + 'c BaseAgent" where
  "new_BaseAgent now fs uuid cls cfg =
     (let base = \<lparr> ident = uuid, class_name = cls, config = cfg, state = IDLE,
                   memory = (if enable_memory cfg
                             then Some \<lparr> short_term = [], max_short_term_size = 50 \<rparr> else None),
                   conversation_history = [], closure_ledger = None \<rparr>
      in if enable_recursive_closure cfg
         then (case new_Ledger now fs (Some (''agent_'' @ uuid @ ''_closure_ledger.csv'')) of
                 Inl e \<Rightarrow> Inl e
               | Inr L \<Rightarrow> Inr (base \<lparr> closure_ledger := Some L \<rparr>))
         else Inr base)"

subsection \<open>The think, act, observe cycle\<close>

datatype input_data = InStr string | InDict "(string \<times> string) list"

fun type_name :: "input_data \<Rightarrow> string" where
  "type_name (InStr s) = ''str''"
| "type_name (InDict d) = ''dict''"

type_synonym action_result = "(string \<times> string) list"

text \<open>\<open>_maybe_log_loop_closure\<close> (lines 265 to 299): the agent and the file system afterwards.\<close>

definition maybe_log_loop_closure ::
  "datetime \<Rightarrow> files \<Rightarrow> (('c, 'z) BaseAgent_scheme) \<Rightarrow> input_data \<Rightarrow> string \<Rightarrow> action_result \<Rightarrow> pyval
   \<Rightarrow> (('c, 'z) BaseAgent_scheme) \<times> files" where
  "maybe_log_loop_closure now fs agent inp thought action observation =
     (case closure_ledger agent of
        None \<Rightarrow> (agent, fs)
      | Some L \<Rightarrow>
          (let hyp = (if py_strip thought \<noteq> [] then thought
                      else ''Agent reasoning produced a hypothesis'');
               action_type = (case map_of action ''type'' of Some t \<Rightarrow> t | None \<Rightarrow> ''action'');
               pat = ''Action='' @ action_type @ ''; Provider='' @ model_provider (config agent);
               struct = class_name agent @ ''::think->act->observe'';
               explanation = ''Closed loop for input of type '' @ type_name inp @
                             '' with observation length '' @ str_nat (length (py_str observation)) @ ''.'';
               (accepted, L', fs') =
                 detect_and_log_closure now fs L (PyStr hyp) (PyStr pat) (PyStr struct) explanation
                   (if name (config agent) \<noteq> [] then name (config agent) else class_name agent)
           in (agent \<lparr> closure_ledger := Some L' \<rparr>, fs')))"

text \<open>The handler of \<open>run\<close> (lines 254 to 262).\<close>

definition run_failed ::
  "datetime \<Rightarrow> (('c, 'z) Agent_scheme) \<Rightarrow> pyexc \<Rightarrow> AgentResponse \<times> (('c, 'z) Agent_scheme)" where
  "run_failed now agent e =
     (let failed = agent \<lparr> state := ERROR \<rparr>
      in (\<lparr> agent_id = ident failed, agent_name = name (config failed),
            response_content = ''An error occurred while processing your request.'',
            raw_response = None, metadata = [], response_timestamp = isoformat now,
            response_state = state_value (state failed), error = Some (str_exc e),
            usage = None \<rparr>,
          failed))"

text \<open>
  \<open>run\<close> (lines 199 to 262). The abstract methods \<open>think\<close>, \<open>act\<close> and \<open>observe\<close> are
  parameters; each returns or raises. The thought and the action result have their
  declared types. The observation is a dynamic value: it is stored in memory as it is and
  becomes the content of the response, which the response model validates (line 244,
  inside the \<open>try\<close> block, after memory and state were updated). The result is what
  \<open>run\<close> returns or raises (\<open>Inl\<close>: the exception that leaves \<open>run\<close>, which its handler
  \<open>except Exception\<close> did not catch), the agent afterwards and the file system
  afterwards (the closure ledger may have been saved).
\<close>

definition run ::
  "datetime \<Rightarrow> files
   \<Rightarrow> (input_data \<Rightarrow> pyval Message list option \<Rightarrow> raised + string)
   \<Rightarrow> (string \<Rightarrow> raised + action_result)
   \<Rightarrow> (action_result \<Rightarrow> raised + pyval)
   \<Rightarrow> ((pyval, 'z) BaseAgent_scheme) \<Rightarrow> input_data
   \<Rightarrow> (signal + AgentResponse) \<times> ((pyval, 'z) BaseAgent_scheme) \<times> files" where
  "run now fs think act observe agent inp =
     (let a1 = agent \<lparr> state := THINKING \<rparr>;
          context = map_option (\<lambda>m. get_context m 10) (memory a1)
      in case think inp context of
           Inl (Sig sg) \<Rightarrow> (Inl sg, a1, fs)
         | Inl (Exc e) \<Rightarrow> (let (r, a) = run_failed now a1 e in (Inr r, a, fs))
         | Inr thought \<Rightarrow>
             (let a2 = a1 \<lparr> state := EXECUTING \<rparr>
              in case act thought of
                   Inl (Sig sg) \<Rightarrow> (Inl sg, a2, fs)
                 | Inl (Exc e) \<Rightarrow> (let (r, a) = run_failed now a2 e in (Inr r, a, fs))
                 | Inr action \<Rightarrow>
                     (case observe action of
                        Inl (Sig sg) \<Rightarrow> (Inl sg, a2, fs)
                      | Inl (Exc e) \<Rightarrow> (let (r, a) = run_failed now a2 e in (Inr r, a, fs))
                      | Inr observation \<Rightarrow>
                          (let (a3, fs3) = maybe_log_loop_closure now fs a2 inp thought action observation;
                               a4 = (case inp of
                                       InStr text_in \<Rightarrow>
                                         a3 \<lparr> memory :=
                                           map_option
                                             (\<lambda>m. add_to_short_term
                                                     (add_to_short_term m \<lparr> role = USER, content = PyStr text_in \<rparr>)
                                                     \<lparr> role = ASSISTANT, content = observation \<rparr>)
                                             (memory a3) \<rparr>
                                     | InDict d \<Rightarrow> a3);
                               a5 = a4 \<lparr> state := COMPLETED \<rparr>
                           in case content_accepted observation of
                                None \<Rightarrow>
                                  (let (r, a) = run_failed now a5 (validation_error 1) in (Inr r, a, fs3))
                              | Some observation_text \<Rightarrow>
                                  (Inr \<lparr> agent_id = ident a5, agent_name = name (config a5),
                                         response_content = observation_text, raw_response = None,
                                         metadata = [(''thought'', MetaStr thought), (''action'', MetaDict action)],
                                         response_timestamp = isoformat now,
                                         response_state = state_value (state a5), error = None,
                                         usage = None \<rparr>,
                                   a5, fs3)))))"

subsection \<open>The chat path\<close>

text \<open>
  \<open>chat\<close> (lines 317 to 383): the response, the agent afterwards and the calls of the
  adapter's \<open>generate\<close> that were made, in order.
\<close>

definition chat ::
  "datetime \<Rightarrow> llm_client \<Rightarrow> ((string, 'z) Agent_scheme) \<Rightarrow> string
   \<Rightarrow> AgentResponse \<times> ((string, 'z) Agent_scheme) \<times> string generate_call list" where
  "chat now generate agent message =
     (let a1 = agent \<lparr> state := THINKING \<rparr>;
          user_message = \<lparr> role = USER, content = message \<rparr>;
          a2 = a1 \<lparr> conversation_history := conversation_history a1 @ [user_message] \<rparr>;
          messages =
            (case system_prompt (config a2) of
               None \<Rightarrow> []
             | Some p \<Rightarrow> (if p \<noteq> [] then [\<lparr> role = SYSTEM, content = p \<rparr>] else []))
            @ (case memory a2 of
                 Some m \<Rightarrow> get_context m 10
               | None \<Rightarrow> py_last 10 (conversation_history a2));
          call = \<lparr> call_messages = messages, call_image = None,
                   call_temperature = temperature (config a2),
                   call_max_tokens = max_tokens (config a2) \<rparr>
      in case generate call of
           Inl e \<Rightarrow>
             (let failed = a2 \<lparr> state := ERROR \<rparr>
              in (\<lparr> agent_id = ident failed, agent_name = name (config failed),
                    response_content = ''Error: '' @ str_exc e, raw_response = None,
                    metadata = [], response_timestamp = isoformat now,
                    response_state = state_value (state failed), error = Some (str_exc e),
                    usage = None \<rparr>,
                  failed, [call]))
         | Inr llm_response \<Rightarrow>
             (let assistant_message = \<lparr> role = ASSISTANT, content = llm_content llm_response \<rparr>;
                  a3 = a2 \<lparr> conversation_history := conversation_history a2 @ [assistant_message] \<rparr>;
                  a4 = a3 \<lparr> memory :=
                              map_option
                                (\<lambda>m. add_to_short_term (add_to_short_term m user_message) assistant_message)
                                (memory a3) \<rparr>;
                  a5 = a4 \<lparr> state := COMPLETED \<rparr>
              in (\<lparr> agent_id = ident a5, agent_name = name (config a5),
                    response_content = llm_content llm_response,
                    raw_response = llm_raw_response llm_response,
                    metadata = [], response_timestamp = isoformat now,
                    response_state = state_value (state a5), error = None,
                    usage = Some (llm_usage llm_response) \<rparr>,
                  a5, [call])))"


section \<open>Multimodal agent of the older tree (\<open>multimodal-agent-builder/src/agents/multimodal_agent.py\<close>)\<close>

text \<open>
  The multimodal agent extends the base agent of the older tree, which has no closure
  ledger, by \<open>vision_enabled\<close>, computed at construction from the configuration and the
  adapter's \<open>supports_vision\<close>. Its memory holds what \<open>process_image\<close> stores: the content
  of a message is a dynamic value.
\<close>

record 'c MultimodalAgent = "'c Agent" +
  vision_enabled :: bool

text \<open>
  What the adapter's \<open>generate\<close> returned, as \<open>process_image\<close> reads it (lines 240 and
  241): the object's \<open>content\<close> attribute (\<open>None\<close> here when \<open>hasattr\<close> is false), its
  \<open>usage\<close> attribute (likewise) and its \<open>str()\<close>. An attribute holds any value.
\<close>

record generate_reply =
  reply_content :: "pyval option"
  reply_usage :: "usage_value option"
  reply_str :: string

type_synonym image_llm_client = "pyval generate_call \<Rightarrow> raised + generate_reply"

text \<open>The response of the handler of \<open>process_image\<close> (lines 260 to 267).\<close>

definition process_image_failed :: "datetime \<Rightarrow> (('c, 'z) Agent_scheme) \<Rightarrow> pyexc \<Rightarrow> AgentResponse" where
  "process_image_failed now agent e =
     \<lparr> agent_id = ident agent, agent_name = name (config agent),
       response_content = ''Error processing image: '' @ str_exc e,
       raw_response = None, metadata = [], response_timestamp = isoformat now,
       response_state = ''error'', error = Some (str_exc e), usage = None \<rparr>"

text \<open>
  \<open>process_image\<close> (lines 203 to 267): what it returns or raises (\<open>Inl\<close>: the exception
  that leaves it) and the agent afterwards. Memory is appended to (lines 244 to 246)
  before the response is constructed (line 248), inside the same \<open>try\<close> block.
\<close>

definition MultimodalAgent_process_image ::
  "datetime \<Rightarrow> image_llm_client \<Rightarrow> pyval MultimodalAgent \<Rightarrow> string \<Rightarrow> string
   \<Rightarrow> (signal + AgentResponse) \<times> pyval MultimodalAgent" where
  "MultimodalAgent_process_image now generate agent img prompt =
     (if \<not> vision_enabled agent
      then (Inr \<lparr> agent_id = ident agent, agent_name = name (config agent),
                  response_content = ''Vision processing is not enabled for this agent or model.'',
                  raw_response = None, metadata = [], response_timestamp = isoformat now,
                  response_state = ''error'', error = Some ''Vision not supported'', usage = None \<rparr>,
            agent)
      else (case generate \<lparr> call_messages = [\<lparr> role = USER, content = PyStr prompt \<rparr>],
                            call_image = Some img,
                            call_temperature = temperature (config agent),
                            call_max_tokens = max_tokens (config agent) \<rparr> of
              Inl (Sig sg) \<Rightarrow> (Inl sg, agent)
            | Inl (Exc e) \<Rightarrow> (Inr (process_image_failed now agent e), agent)
            | Inr resp \<Rightarrow>
                (let reply = (case reply_content resp of Some c \<Rightarrow> c | None \<Rightarrow> PyStr (reply_str resp));
                     reply_use = (case reply_usage resp of Some u \<Rightarrow> u | None \<Rightarrow> UsageNone);
                     a1 = agent \<lparr> memory :=
                            map_option
                              (\<lambda>m. add_to_short_term
                                      (add_to_short_term m \<lparr> role = USER, content = PyStr prompt \<rparr>)
                                      \<lparr> role = ASSISTANT, content = reply \<rparr>)
                              (memory agent) \<rparr>
                 in case validate_response_fields reply reply_use of
                      Inl e \<Rightarrow> (Inr (process_image_failed now a1 e), a1)
                    | Inr (reply_text, use) \<Rightarrow>
                        (Inr \<lparr> agent_id = ident a1, agent_name = name (config a1),
                               response_content = reply_text, raw_response = None,
                               metadata = [(''modality'', MetaStr ''image''), (''prompt'', MetaStr prompt),
                                           (''agent_id'', MetaStr (ident a1))],
                               response_timestamp = isoformat now,
                               response_state = state_value COMPLETED, error = None,
                               usage = use \<rparr>,
                         a1))))"


section \<open>Example values\<close>

text \<open>Concrete inputs at which the theorems below are instantiated.\<close>

definition example_config :: AgentConfig where
  "example_config =
     \<lparr> name = ''T'', model_provider = ''openai'', temperature = 7 / 10, max_tokens = 4096,
       system_prompt = None, enable_memory = True, enable_recursive_closure = False \<rparr>"

definition example_agent :: "'c BaseAgent" where
  "example_agent =
     \<lparr> ident = ''a1'', class_name = ''SimpleAgent'', config = example_config, state = IDLE,
       memory = Some \<lparr> short_term = [], max_short_term_size = 50 \<rparr>,
       conversation_history = [], closure_ledger = None \<rparr>"

definition example_now :: datetime where
  "example_now = \<lparr> dt_year = 2024, dt_month = 5, dt_day = 1, dt_hour = 10, dt_minute = 0,
                   dt_second = 0, dt_microsecond = 0 \<rparr>"

definition example_multimodal_agent :: "pyval MultimodalAgent" where
  "example_multimodal_agent =
     \<lparr> ident = ''m1'', class_name = ''MultimodalAgent'', config = example_config, state = IDLE,
       memory = Some \<lparr> short_term = [], max_short_term_size = 50 \<rparr>,
       conversation_history = [], vision_enabled = True \<rparr>"

definition example_ledger :: Ledger where
  "example_ledger = \<lparr> ledger_file = Some ''ledger.csv'', closed_loops = [], closure_recognition_agent = [] \<rparr>"


section \<open>Theorems\<close>

subsection \<open>Decimal formatting and timestamps\<close>

lemma digit_char_digit: "d < 10 \<Longrightarrow> is_digit (digit_char d)"
  by (simp add: is_digit_def digit_char_def)

lemma digit_char_value: "d < 10 \<Longrightarrow> (of_char (digit_char d) :: nat) - 48 = d"
  by (simp add: digit_char_def)

lemma str_nat_digits: "list_all is_digit (str_nat n)"
proof (induction n rule: str_nat.induct)
  case (1 n)
  show ?case
  proof (cases "n < 10")
    case True
    then show ?thesis by (simp add: str_nat.simps [of n] digit_char_digit)
  next
    case False
    with 1 show ?thesis by (simp add: str_nat.simps [of n] digit_char_digit)
  qed
qed

lemma str_nat_nonempty: "str_nat n \<noteq> []"
  by (simp add: str_nat.simps [of n])

lemma digits_value_snoc: "digits_value (s @ [c]) = 10 * digits_value s + (of_char c - 48)"
  by (simp add: digits_value_def)

lemma str_nat_value: "digits_value (str_nat n) = n"
proof (induction n rule: str_nat.induct)
  case (1 n)
  show ?case
  proof (cases "n < 10")
    case True
    then show ?thesis by (simp add: str_nat.simps [of n] digits_value_def digit_char_value)
  next
    case False
    with 1 show ?thesis
      by (simp add: str_nat.simps [of n] digits_value_snoc digit_char_value)
  qed
qed

lemma str_nat_length: "0 < w \<Longrightarrow> n < 10 ^ w \<Longrightarrow> length (str_nat n) \<le> w"
proof (induction n arbitrary: w rule: str_nat.induct)
  case (1 n)
  show ?case
  proof (cases "n < 10")
    case True
    with 1(2) show ?thesis by (simp add: str_nat.simps [of n])
  next
    case False
    with 1(3) have w: "1 < w" by (cases w; cases "w - 1"; simp)
    then obtain v where v: "w = Suc v" "0 < v" by (cases w) auto
    from 1(3) v have "n div 10 < 10 ^ v"
      by (simp add: less_mult_imp_div_less mult.commute)
    with 1(1) [OF False v(2)] have "length (str_nat (n div 10)) \<le> v" by simp
    with False v show ?thesis by (simp add: str_nat.simps [of n])
  qed
qed

lemma digits_value_zero_cons: "digits_value (CHR ''0'' # s) = digits_value s"
  by (simp add: digits_value_def)

lemma digits_value_zeros: "digits_value (replicate k (CHR ''0'') @ s) = digits_value s"
  by (induction k) (simp_all add: digits_value_zero_cons)

lemma zeros_digits: "list_all is_digit (replicate k (CHR ''0''))"
  by (induction k) (simp_all add: is_digit_def)

lemma fmt_0wd_digits: "list_all is_digit (fmt_0wd w n)"
  by (simp add: fmt_0wd_def str_nat_digits zeros_digits)

lemma fmt_0wd_value: "digits_value (fmt_0wd w n) = n"
  by (simp add: fmt_0wd_def digits_value_zeros str_nat_value)

lemma fmt_0wd_length: "0 < w \<Longrightarrow> n < 10 ^ w \<Longrightarrow> length (fmt_0wd w n) = w"
  using str_nat_length [of w n] by (simp add: fmt_0wd_def)

lemma fmt_0wd_min_length: "w \<le> length (fmt_0wd w n)"
  by (simp add: fmt_0wd_def)

lemma fmt_0wd_nonempty: "fmt_0wd w n \<noteq> []"
  by (simp add: fmt_0wd_def str_nat_nonempty)

lemma fmt_0wd_parse: "parse_digits (fmt_0wd w n) = Some n"
  by (simp add: parse_digits_def fmt_0wd_digits fmt_0wd_value fmt_0wd_nonempty)


lemma parse_isoformat:
  assumes valid: "valid_datetime d"
  shows "parse_iso8601 (isoformat d) = Some d"
proof -
  define Y where "Y = fmt_0wd 4 (dt_year d)"
  define Mo where "Mo = fmt_0wd 2 (dt_month d)"
  define D where "D = fmt_0wd 2 (dt_day d)"
  define H where "H = fmt_0wd 2 (dt_hour d)"
  define Mi where "Mi = fmt_0wd 2 (dt_minute d)"
  define S where "S = fmt_0wd 2 (dt_second d)"
  define U where "U = fmt_0wd 6 (dt_microsecond d)"
  have day: "dt_day d \<le> 31"
    using valid by (auto simp: valid_datetime_def days_in_month_def split: if_splits)
  have lens: "length Y = 4" "length Mo = 2" "length D = 2" "length H = 2" "length Mi = 2"
    "length S = 2" "length U = 6"
    using valid day by (simp_all add: Y_def Mo_def D_def H_def Mi_def S_def U_def
        valid_datetime_def fmt_0wd_length)
  have parses: "parse_digits Y = Some (dt_year d)" "parse_digits Mo = Some (dt_month d)"
    "parse_digits D = Some (dt_day d)" "parse_digits H = Some (dt_hour d)"
    "parse_digits Mi = Some (dt_minute d)" "parse_digits S = Some (dt_second d)"
    "parse_digits U = Some (dt_microsecond d)"
    by (simp_all add: Y_def Mo_def D_def H_def Mi_def S_def U_def fmt_0wd_parse)
  have whole: "\<lparr> dt_year = dt_year d, dt_month = dt_month d, dt_day = dt_day d,
                  dt_hour = dt_hour d, dt_minute = dt_minute d, dt_second = dt_second d,
                  dt_microsecond = dt_microsecond d \<rparr> = d"
    by simp
  show ?thesis
  proof (cases "dt_microsecond d = 0")
    case True
    have iso: "isoformat d = Y @ ''-'' @ Mo @ ''-'' @ D @ ''T'' @ H @ '':'' @ Mi @ '':'' @ S"
      using True by (simp add: isoformat_def Y_def Mo_def D_def H_def Mi_def S_def)
    have whole0: "\<lparr> dt_year = dt_year d, dt_month = dt_month d, dt_day = dt_day d,
                  dt_hour = dt_hour d, dt_minute = dt_minute d, dt_second = dt_second d,
                  dt_microsecond = 0 \<rparr> = d"
      using whole True by simp
    show ?thesis
      unfolding iso parse_iso8601_def
      using valid by (simp add: lens parses nth_append whole0)
  next
    case False
    have iso: "isoformat d =
        Y @ ''-'' @ Mo @ ''-'' @ D @ ''T'' @ H @ '':'' @ Mi @ '':'' @ S @ ''.'' @ U"
      using False by (simp add: isoformat_def Y_def Mo_def D_def H_def Mi_def S_def U_def)
    show ?thesis
      unfolding iso parse_iso8601_def
      using valid by (simp add: lens parses nth_append whole)
  qed
qed

subsection \<open>Gemini capability defaults\<close>

text \<open>
  C7 (as stated in the specification, refuted): for a model name absent from the
  capability table the specification promises that functions are reported enabled. The
  probe \<open>supports_functions\<close> reports them disabled for the unknown model
  \<open>gemini-unknown\<close>.
\<close>

theorem gemini_unknown_functions_counterexample:
  "MODEL_CAPABILITIES ''gemini-unknown'' = None \<and> supports_functions ''gemini-unknown'' = False"
  by (simp add: MODEL_CAPABILITIES_def supports_functions_def)

text \<open>
  C7 (amended): for every model name absent from the capability table the probes report
  vision disabled, functions disabled, streaming enabled and a maximum context length of
  32768 tokens; each probe returns a value (none raises).
\<close>

theorem gemini_unknown_model_defaults:
  assumes "MODEL_CAPABILITIES model = None"
  shows "supports_vision model = False \<and> supports_functions model = False \<and>
         supports_streaming model = True \<and> max_context_length model = 32768"
  using assms
  by (simp add: supports_vision_def supports_functions_def supports_streaming_def
      max_context_length_def)

theorem gemini_unknown_model_defaults_witness:
  "MODEL_CAPABILITIES ''gemini-unknown'' = None \<and>
   supports_vision ''gemini-unknown'' = False \<and> supports_functions ''gemini-unknown'' = False \<and>
   supports_streaming ''gemini-unknown'' = True \<and> max_context_length ''gemini-unknown'' = 32768"
proof -
  have absent: "MODEL_CAPABILITIES ''gemini-unknown'' = None"
    by (simp add: MODEL_CAPABILITIES_def)
  show ?thesis
    using absent gemini_unknown_model_defaults [OF absent] by simp
qed

subsection \<open>Upload validation at the image endpoint\<close>

text \<open>
  C1 (the code at the failing inputs): a stored agent supports image processing and the
  allow-list is the default one. For an upload named \<open>payload.exe\<close> the \<open>try\<close> block
  raises the 400 rejection, and the handler answers with status 500; with a maximum size
  of 1 MB and an upload of 1048577 bytes named \<open>big.png\<close> that reaches the handler (the
  middleware rejects on a declared \<open>Content-Length\<close> only) the \<open>try\<close> block raises the
  413 rejection, and the handler answers with status 500. In both cases the handler's own
  \<open>HTTPException\<close> is caught by the handler's \<open>except Exception\<close> clause and replaced.
\<close>

theorem process_image_rejections_become_500:
  "settings_valid default_settings \<and> settings_valid (default_settings \<lparr> max_file_size_mb := 1 \<rparr>)
   \<and>
   process_image_try default_settings
     \<lparr> content_type = Some ''image/png'', filename = Some ''payload.exe'', file_bytes = ''MZ'' \<rparr>
     (\<lambda>data prompt. Inr ''described'') ''Describe''
   = (Inl (HTTPException 400 ''Unsupported image file extension'') :: pyexc + string)
   \<and>
   http_status
     (main_process_image default_settings [''a1'' \<mapsto> Some (\<lambda>data prompt. Inr ''described'')] ''a1''
        \<lparr> content_type = Some ''image/png'', filename = Some ''payload.exe'', file_bytes = ''MZ'' \<rparr>
        ''Describe'')
   = 500
   \<and>
   process_image_try (default_settings \<lparr> max_file_size_mb := 1 \<rparr>)
     \<lparr> content_type = Some ''image/png'', filename = Some ''big.png'',
       file_bytes = replicate 1048577 (CHR ''x'') \<rparr>
     (\<lambda>data prompt. Inr ''described'') ''Describe''
   = (Inl (HTTPException 413 ''Image too large'') :: pyexc + string)
   \<and>
   http_status
     (main_process_image (default_settings \<lparr> max_file_size_mb := 1 \<rparr>)
        [''a1'' \<mapsto> Some (\<lambda>data prompt. Inr ''described'')] ''a1''
        \<lparr> content_type = Some ''image/png'', filename = Some ''big.png'',
          file_bytes = replicate 1048577 (CHR ''x'') \<rparr>
        ''Describe'')
   = 500"
  by (simp add: main_process_image_def process_image_try_def default_settings_def
      allowed_image_extensions_def max_file_size_bytes_def py_endswith_def py_strip_def
      py_lower_def py_lower_char_def py_isspace_def char_of_def bit_Suc_0_iff settings_valid_def)

subsection \<open>Rate limiting in the security middleware\<close>

text \<open>
  C2 (the code at the failing input): rate limiting is enabled with a quota of one request
  per 60 seconds, which the settings' constraints admit. Three requests of one client arrive within two seconds; the middleware
  hands all three on and answers none with 429, because reading \<open>settings.redis_url\<close>
  raises inside the limiter's \<open>try\<close> block and the handler sets \<open>limited\<close> to false.
\<close>

theorem security_middleware_never_limits:
  "settings_valid (default_settings \<lparr> rate_limit_requests := 1 \<rparr>) \<and>
   serve (default_settings \<lparr> rate_limit_requests := 1 \<rparr>) redis_incr initial_limiter
     [ (1000, \<lparr> content_length_header = None, client_host = Some ''10.0.0.1'' \<rparr>),
       (1001, \<lparr> content_length_header = None, client_host = Some ''10.0.0.1'' \<rparr>),
       (1002, \<lparr> content_length_header = None, client_host = Some ''10.0.0.1'' \<rparr>) ]
   = [CallNext, CallNext, CallNext]"
  by (simp add: security_middleware_def limiter_try_def getattr_undeclared_def
      default_settings_def max_file_size_bytes_def settings_valid_def)

subsection \<open>Grounding summary\<close>

text \<open>
  C8 (the code at the failing input, which is every input): whatever the settings object,
  the file system and the character budget, \<open>get_grounding_summary\<close> raises
  \<open>AttributeError\<close> instead of returning a string: \<open>load_grounding_documents\<close> reads
  \<open>settings.ethics_framework_path\<close>, which the class \<open>Settings\<close> does not declare, before
  its \<open>try\<close> block is entered.
\<close>

theorem get_grounding_summary_raises:
  "get_grounding_summary st fs pdf_reader max_chars
   = Inl (AttributeError ''Settings'' ''ethics_framework_path'')"
  by (simp add: get_grounding_summary_def load_grounding_documents_def getattr_undeclared_def)

subsection \<open>The think, act, observe cycle\<close>

lemma run_failed_fields:
  "fst (run_failed now agent e) =
     \<lparr> agent_id = ident agent, agent_name = name (config agent),
       response_content = ''An error occurred while processing your request.'',
       raw_response = None, metadata = [], response_timestamp = isoformat now,
       response_state = ''error'', error = Some (str_exc e), usage = None \<rparr>"
  "state (snd (run_failed now agent e)) = ERROR"
  by (simp_all add: run_failed_def Let_def)

text \<open>
  C3 (as stated in the specification, refuted at two inputs). The specification promises
  a non-empty \<open>error\<close> field whenever \<open>think\<close>, \<open>act\<close> or \<open>observe\<close> raises: when
  \<open>think\<close> raises an exception whose text is empty (as \<open>raise ValueError()\<close> does),
  \<open>run\<close> returns a response whose \<open>error\<close> field is the empty string. The specification
  promises that \<open>run\<close> never raises: when \<open>think\<close> raises \<open>asyncio.CancelledError\<close>,
  which is no \<open>Exception\<close>, the exception leaves \<open>run\<close>.
\<close>

theorem run_empty_error_counterexample:
  "map_sum id error
     (fst (run example_now Map.empty (\<lambda>inp ctx. Inl (Exc (Error []))) (\<lambda>t. Inr []) (\<lambda>a. Inr (PyStr ''done''))
             example_agent (InStr ''hi''))) = Inr (Some [])
   \<and>
   fst (run example_now Map.empty (\<lambda>inp ctx. Inl (Sig CancelledError)) (\<lambda>t. Inr []) (\<lambda>a. Inr (PyStr ''done''))
          example_agent (InStr ''hi'')) = Inl CancelledError"
  by (simp add: run_def Let_def run_failed_fields split_beta)

text \<open>
  C3 (amended): for every agent and every input, if \<open>think\<close>, \<open>act\<close> or \<open>observe\<close>
  raises an exception \<open>e\<close> derived from \<open>Exception\<close>, \<open>run\<close> does not raise: it returns a
  response whose state is \<open>error\<close>, whose \<open>error\<close> field is the exception text \<open>str(e)\<close>
  (empty when that text is empty) and whose content is the fixed message "An error
  occurred while processing your request.", whatever the exception text; the agent is left
  in state \<open>ERROR\<close>. If one of the three raises an exception that is no \<open>Exception\<close>
  (\<open>asyncio.CancelledError\<close>, \<open>KeyboardInterrupt\<close>, \<open>SystemExit\<close>, \<open>GeneratorExit\<close>),
  that exception leaves \<open>run\<close>. If all three return and the observation is a string,
  \<open>run\<close> returns a response with state \<open>completed\<close>, no error, and the observation as
  content. If all three return and the observation is no string, the response cannot be
  built (its \<open>content\<close> field accepts a string only): \<open>run\<close> returns the error response
  with the text of the validation error.
\<close>

theorem run_error_response:
  "(let ctx = map_option (\<lambda>m. get_context m 10) (memory agent);
        res = run now fs think act observe agent inp;
        failed = (\<lambda>e. (case fst res of
                          Inl sg' \<Rightarrow> False
                        | Inr r \<Rightarrow>
                            response_state r = ''error'' \<and> error r = Some (str_exc e) \<and>
                            response_content r = ''An error occurred while processing your request.'') \<and>
                       state (fst (snd res)) = ERROR)
    in (think inp ctx = Inl (Exc e) \<longrightarrow> failed e) \<and>
       (think inp ctx = Inr thought \<and> act thought = Inl (Exc e) \<longrightarrow> failed e) \<and>
       (think inp ctx = Inr thought \<and> act thought = Inr action \<and> observe action = Inl (Exc e) \<longrightarrow>
          failed e) \<and>
       (think inp ctx = Inl (Sig sg) \<longrightarrow> fst res = Inl sg) \<and>
       (think inp ctx = Inr thought \<and> act thought = Inl (Sig sg) \<longrightarrow> fst res = Inl sg) \<and>
       (think inp ctx = Inr thought \<and> act thought = Inr action \<and> observe action = Inl (Sig sg) \<longrightarrow>
          fst res = Inl sg) \<and>
       (think inp ctx = Inr thought \<and> act thought = Inr action \<and> observe action = Inr observation \<longrightarrow>
          (case content_accepted observation of
             Some observation_text \<Rightarrow>
               (case fst res of
                  Inl sg' \<Rightarrow> False
                | Inr r \<Rightarrow>
                    response_state r = ''completed'' \<and> error r = None \<and>
                    response_content r = observation_text) \<and>
               state (fst (snd res)) = COMPLETED
           | None \<Rightarrow> failed (validation_error 1))))"
  by (simp add: run_def Let_def run_failed_fields split_beta split: option.splits)

theorem run_error_response_witness:
  "map_sum id error
     (fst (run example_now Map.empty (\<lambda>inp ctx. Inl (Exc (Error ''boom''))) (\<lambda>t. Inr []) (\<lambda>a. Inr (PyStr ''done''))
             example_agent (InStr ''hi''))) = Inr (Some ''boom'') \<and>
   map_sum id response_state
     (fst (run example_now Map.empty (\<lambda>inp ctx. Inr ''thought'') (\<lambda>t. Inl (Exc (Error ''boom''))) (\<lambda>a. Inr (PyStr ''done''))
             example_agent (InStr ''hi''))) = Inr ''error'' \<and>
   map_sum id response_content
     (fst (run example_now Map.empty (\<lambda>inp ctx. Inr ''thought'') (\<lambda>t. Inr []) (\<lambda>a. Inl (Exc (Error ''boom'')))
             example_agent (InStr ''hi''))) = Inr ''An error occurred while processing your request.'' \<and>
   fst (run example_now Map.empty (\<lambda>inp ctx. Inr ''thought'') (\<lambda>t. Inl (Sig KeyboardInterrupt)) (\<lambda>a. Inr (PyStr ''done''))
          example_agent (InStr ''hi'')) = Inl KeyboardInterrupt \<and>
   map_sum id response_state
     (fst (run example_now Map.empty (\<lambda>inp ctx. Inr ''thought'') (\<lambda>t. Inr []) (\<lambda>a. Inr (PyStr ''done''))
             example_agent (InStr ''hi''))) = Inr ''completed'' \<and>
   map_sum id response_state
     (fst (run example_now Map.empty (\<lambda>inp ctx. Inr ''thought'') (\<lambda>t. Inr []) (\<lambda>a. Inr PyNone)
             example_agent (InStr ''hi''))) = Inr ''error''"
  using run_error_response [where agent = example_agent and now = example_now and fs = Map.empty
            and inp = "InStr ''hi''" and think = "\<lambda>inp ctx. Inl (Exc (Error ''boom''))" and act = "\<lambda>t. Inr []"
            and observe = "\<lambda>a. Inr (PyStr ''done'')" and e = "Error ''boom''" and sg = KeyboardInterrupt
            and thought = "''thought''" and action = "[]" and observation = "PyStr ''done''"]
        run_error_response [where agent = example_agent and now = example_now and fs = Map.empty
            and inp = "InStr ''hi''" and think = "\<lambda>inp ctx. Inr ''thought''" and act = "\<lambda>t. Inl (Exc (Error ''boom''))"
            and observe = "\<lambda>a. Inr (PyStr ''done'')" and e = "Error ''boom''" and sg = KeyboardInterrupt
            and thought = "''thought''" and action = "[]" and observation = "PyStr ''done''"]
        run_error_response [where agent = example_agent and now = example_now and fs = Map.empty
            and inp = "InStr ''hi''" and think = "\<lambda>inp ctx. Inr ''thought''" and act = "\<lambda>t. Inr []"
            and observe = "\<lambda>a. Inl (Exc (Error ''boom''))" and e = "Error ''boom''" and sg = KeyboardInterrupt
            and thought = "''thought''" and action = "[]" and observation = "PyStr ''done''"]
        run_error_response [where agent = example_agent and now = example_now and fs = Map.empty
            and inp = "InStr ''hi''" and think = "\<lambda>inp ctx. Inr ''thought''" and act = "\<lambda>t. Inl (Sig KeyboardInterrupt)"
            and observe = "\<lambda>a. Inr (PyStr ''done'')" and e = "Error ''boom''" and sg = KeyboardInterrupt
            and thought = "''thought''" and action = "[]" and observation = "PyStr ''done''"]
        run_error_response [where agent = example_agent and now = example_now and fs = Map.empty
            and inp = "InStr ''hi''" and think = "\<lambda>inp ctx. Inr ''thought''" and act = "\<lambda>t. Inr []"
            and observe = "\<lambda>a. Inr (PyStr ''done'')" and e = "Error ''boom''" and sg = KeyboardInterrupt
            and thought = "''thought''" and action = "[]" and observation = "PyStr ''done''"]
        run_error_response [where agent = example_agent and now = example_now and fs = Map.empty
            and inp = "InStr ''hi''" and think = "\<lambda>inp ctx. Inr ''thought''" and act = "\<lambda>t. Inr []"
            and observe = "\<lambda>a. Inr PyNone" and e = "Error ''boom''" and sg = KeyboardInterrupt
            and thought = "''thought''" and action = "[]" and observation = PyNone]
  by (simp add: Let_def split: sum.splits)

subsection \<open>The chat path\<close>

lemma get_context_drop: "get_context m 10 = drop (length (short_term m) - 10) (short_term m)"
  by (simp add: get_context_def py_last_def)

text \<open>
  C9 (as stated in the specification, refuted): the specification says the list passed to
  \<open>generate\<close> holds the short-term memory contents as they were before the call. With
  eleven messages in short-term memory and no system prompt, the list passed holds only
  the last ten.
\<close>

theorem chat_context_truncated_counterexample:
  "map call_messages
     (snd (snd (chat example_now (\<lambda>c. Inl (Error ''offline''))
        (example_agent \<lparr> memory :=
           Some \<lparr> short_term = replicate 11 \<lparr> role = USER, content = ''earlier'' \<rparr>,
                  max_short_term_size = 50 \<rparr> \<rparr>)
        ''hi'')))
   = [replicate 10 \<lparr> role = USER, content = ''earlier'' \<rparr>]"
  by (simp add: chat_def Let_def get_context_def py_last_def example_agent_def example_config_def)

text \<open>
  C9 (amended): for every agent with memory enabled, \<open>chat(message)\<close> calls \<open>generate\<close>
  once, with the optional configured system prompt followed by the most recent ten
  messages of short-term memory as it was before the call (all of it when it holds at most
  ten). The list does not depend on \<open>message\<close>: the current user message is not part of
  it. If \<open>generate\<close> raises, short-term memory is unchanged and the user message has been
  appended to the conversation history only; if it returns, the user message and the reply
  are appended to short-term memory, and to the conversation history.
\<close>

theorem chat_generate_call:
  "memory agent = Some m \<Longrightarrow>
   (let res = chat now generate agent message;
        sys = (case system_prompt (config agent) of
                 None \<Rightarrow> []
               | Some p \<Rightarrow> (if p \<noteq> [] then [\<lparr> role = SYSTEM, content = p \<rparr>] else []));
        call = \<lparr> call_messages = sys @ drop (length (short_term m) - 10) (short_term m),
                 call_image = None, call_temperature = temperature (config agent),
                 call_max_tokens = max_tokens (config agent) \<rparr>;
        user_message = \<lparr> role = USER, content = message \<rparr>
    in snd (snd res) = [call] \<and>
       (\<forall>e. generate call = Inl e \<longrightarrow>
              memory (fst (snd res)) = Some m \<and>
              conversation_history (fst (snd res)) = conversation_history agent @ [user_message]) \<and>
       (\<forall>r. generate call = Inr r \<longrightarrow>
              memory (fst (snd res)) =
                Some (add_to_short_term (add_to_short_term m user_message)
                        \<lparr> role = ASSISTANT, content = llm_content r \<rparr>) \<and>
              conversation_history (fst (snd res)) =
                conversation_history agent @ [user_message, \<lparr> role = ASSISTANT, content = llm_content r \<rparr>]))"
  by (auto simp add: chat_def Let_def get_context_drop split: sum.splits)

theorem chat_generate_call_witness:
  "snd (snd (chat example_now (\<lambda>c. Inl (Error ''offline'')) example_agent ''hi''))
     = [\<lparr> call_messages = [], call_image = None, call_temperature = 7 / 10, call_max_tokens = 4096 \<rparr>] \<and>
   memory (fst (snd (chat example_now (\<lambda>c. Inl (Error ''offline'')) example_agent ''hi'')))
     = Some \<lparr> short_term = [], max_short_term_size = 50 \<rparr> \<and>
   memory (fst (snd (chat example_now
       (\<lambda>c. Inr \<lparr> llm_content = ''hello'', llm_model = ''gpt-4'', llm_usage = [], llm_raw_response = None \<rparr>)
       example_agent ''hi'')))
     = Some \<lparr> short_term = [\<lparr> role = USER, content = ''hi'' \<rparr>, \<lparr> role = ASSISTANT, content = ''hello'' \<rparr>],
              max_short_term_size = 50 \<rparr>"
  using chat_generate_call [where agent = example_agent and m = "\<lparr> short_term = [], max_short_term_size = 50 \<rparr>"
          and now = example_now and generate = "\<lambda>c. Inl (Error ''offline'')" and message = "''hi''"]
        chat_generate_call [where agent = example_agent and m = "\<lparr> short_term = [], max_short_term_size = 50 \<rparr>"
          and now = example_now
          and generate = "\<lambda>c. Inr \<lparr> llm_content = ''hello'', llm_model = ''gpt-4'', llm_usage = [], llm_raw_response = None \<rparr>"
          and message = "''hi''"]
  by (simp add: Let_def example_agent_def example_config_def add_to_short_term_def)

subsection \<open>Image processing by the multimodal agent\<close>

text \<open>
  C10 (as stated in the specification, refuted): the specification says that whenever
  \<open>process_image\<close> returns a response with state \<open>error\<close>, short-term memory is as it
  was before the call. With vision enabled and an empty memory, the adapter returns a
  reply whose \<open>content\<close> is \<open>None\<close>: the prompt and the reply are appended to memory, the
  response cannot be constructed from the reply, and \<open>process_image\<close> returns a response
  with state \<open>error\<close> while memory holds the two new messages.
\<close>

theorem process_image_error_after_append_counterexample:
  "map_sum id response_state
     (fst (MultimodalAgent_process_image example_now
             (\<lambda>c. Inr \<lparr> reply_content = Some PyNone, reply_usage = Some (UsageDict []), reply_str = ''reply'' \<rparr>)
             example_multimodal_agent ''bytes'' ''What is this?'')) = Inr ''error''
   \<and>
   memory example_multimodal_agent = Some \<lparr> short_term = [], max_short_term_size = 50 \<rparr>
   \<and>
   memory (snd (MultimodalAgent_process_image example_now
             (\<lambda>c. Inr \<lparr> reply_content = Some PyNone, reply_usage = Some (UsageDict []), reply_str = ''reply'' \<rparr>)
             example_multimodal_agent ''bytes'' ''What is this?''))
     = Some \<lparr> short_term = [\<lparr> role = USER, content = PyStr ''What is this?'' \<rparr>,
                             \<lparr> role = ASSISTANT, content = PyNone \<rparr>],
              max_short_term_size = 50 \<rparr>"
  by (simp add: MultimodalAgent_process_image_def Let_def example_multimodal_agent_def
      validate_response_fields_def process_image_failed_def add_to_short_term_def)

text \<open>
  C10 (amended): for every multimodal agent, whenever \<open>process_image\<close> returns a response
  with state \<open>error\<close> because vision is disabled or because the adapter's \<open>generate\<close>
  raised (an exception derived from \<open>Exception\<close>), short-term memory and conversation
  history are exactly as they were before the call; an exception that is no \<open>Exception\<close>
  leaves \<open>process_image\<close>, with the agent unchanged. The prompt and the reply are appended
  to short-term memory only when vision is enabled and \<open>generate\<close> returned, and then
  always; the conversation history is never changed. After \<open>generate\<close> returned, the
  response has state \<open>completed\<close> when its content is a string and its usage is absent or
  a mapping of integers, and state \<open>error\<close> otherwise, the pair staying in memory.
\<close>

theorem process_image_error_keeps_memory:
  "(let res = MultimodalAgent_process_image now generate agent img prompt;
        call = \<lparr> call_messages = [\<lparr> role = USER, content = PyStr prompt \<rparr>], call_image = Some img,
                 call_temperature = temperature (config agent),
                 call_max_tokens = max_tokens (config agent) \<rparr>;
        has_state = (\<lambda>state_text. case fst res of Inl sg' \<Rightarrow> False | Inr r \<Rightarrow> response_state r = state_text)
    in (\<not> vision_enabled agent \<longrightarrow> has_state ''error'' \<and> snd res = agent) \<and>
       (vision_enabled agent \<and> generate call = Inl (Exc e) \<longrightarrow> has_state ''error'' \<and> snd res = agent) \<and>
       (vision_enabled agent \<and> generate call = Inl (Sig sg) \<longrightarrow> fst res = Inl sg \<and> snd res = agent) \<and>
       (vision_enabled agent \<and> generate call = Inr resp \<longrightarrow>
          memory (snd res) =
            map_option
              (\<lambda>m. add_to_short_term (add_to_short_term m \<lparr> role = USER, content = PyStr prompt \<rparr>)
                     \<lparr> role = ASSISTANT,
                       content = (case reply_content resp of Some c \<Rightarrow> c | None \<Rightarrow> PyStr (reply_str resp)) \<rparr>)
              (memory agent) \<and>
          has_state
            (if content_accepted (case reply_content resp of Some c \<Rightarrow> c | None \<Rightarrow> PyStr (reply_str resp)) \<noteq> None \<and>
                usage_accepted (case reply_usage resp of Some u \<Rightarrow> u | None \<Rightarrow> UsageNone) \<noteq> None
             then ''completed'' else ''error'')) \<and>
       (memory (snd res) \<noteq> memory agent \<longrightarrow>
          vision_enabled agent \<and> (\<exists>resp'. generate call = Inr resp')) \<and>
       conversation_history (snd res) = conversation_history agent)"
proof -
  define call where "call = \<lparr> call_messages = [\<lparr> role = USER, content = PyStr prompt \<rparr>], call_image = Some img,
      call_temperature = temperature (config agent), call_max_tokens = max_tokens (config agent) \<rparr>"
  show ?thesis
  proof (cases "vision_enabled agent")
    case False
    then show ?thesis
      by (simp add: MultimodalAgent_process_image_def Let_def)
  next
    case True
    show ?thesis
    proof (cases "generate call")
      case (Inl x)
      then show ?thesis
        using True unfolding call_def
        by (cases x) (simp_all add: MultimodalAgent_process_image_def Let_def process_image_failed_def)
    next
      case (Inr resp')
      then show ?thesis
        using True unfolding call_def
        by (auto simp add: MultimodalAgent_process_image_def Let_def process_image_failed_def
            validate_response_fields_def split: option.splits)
    qed
  qed
qed

theorem process_image_error_keeps_memory_witness:
  "map_sum id response_state
     (fst (MultimodalAgent_process_image example_now (\<lambda>c. Inl (Exc (Error ''offline'')))
             example_multimodal_agent ''bytes'' ''What is this?'')) = Inr ''error'' \<and>
   snd (MultimodalAgent_process_image example_now (\<lambda>c. Inl (Exc (Error ''offline'')))
          example_multimodal_agent ''bytes'' ''What is this?'') = example_multimodal_agent \<and>
   map_sum id response_state
     (fst (MultimodalAgent_process_image example_now (\<lambda>c. Inl (Exc (Error ''offline'')))
             (example_multimodal_agent \<lparr> vision_enabled := False \<rparr>) ''bytes'' ''What is this?'')) = Inr ''error'' \<and>
   fst (MultimodalAgent_process_image example_now (\<lambda>c. Inl (Sig CancelledError))
          example_multimodal_agent ''bytes'' ''What is this?'') = Inl CancelledError \<and>
   map_sum id response_state
     (fst (MultimodalAgent_process_image example_now
             (\<lambda>c. Inr \<lparr> reply_content = Some (PyStr ''a cat''), reply_usage = Some (UsageDict []), reply_str = ''reply'' \<rparr>)
             example_multimodal_agent ''bytes'' ''What is this?'')) = Inr ''completed'' \<and>
   memory (snd (MultimodalAgent_process_image example_now
             (\<lambda>c. Inr \<lparr> reply_content = Some (PyStr ''a cat''), reply_usage = Some (UsageDict []), reply_str = ''reply'' \<rparr>)
             example_multimodal_agent ''bytes'' ''What is this?''))
     = Some \<lparr> short_term = [\<lparr> role = USER, content = PyStr ''What is this?'' \<rparr>,
                             \<lparr> role = ASSISTANT, content = PyStr ''a cat'' \<rparr>],
              max_short_term_size = 50 \<rparr>"
  using process_image_error_keeps_memory [where now = example_now and generate = "\<lambda>c. Inl (Exc (Error ''offline''))"
          and agent = example_multimodal_agent and img = "''bytes''" and prompt = "''What is this?''"
          and e = "Error ''offline''" and sg = CancelledError]
        process_image_error_keeps_memory [where now = example_now and generate = "\<lambda>c. Inl (Exc (Error ''offline''))"
          and agent = "example_multimodal_agent \<lparr> vision_enabled := False \<rparr>" and img = "''bytes''"
          and prompt = "''What is this?''" and e = "Error ''offline''" and sg = CancelledError]
        process_image_error_keeps_memory [where now = example_now and generate = "\<lambda>c. Inl (Sig CancelledError)"
          and agent = example_multimodal_agent and img = "''bytes''" and prompt = "''What is this?''"
          and e = "Error ''offline''" and sg = CancelledError]
        process_image_error_keeps_memory [where now = example_now
          and generate = "\<lambda>c. Inr \<lparr> reply_content = Some (PyStr ''a cat''), reply_usage = Some (UsageDict []), reply_str = ''reply'' \<rparr>"
          and agent = example_multimodal_agent and img = "''bytes''" and prompt = "''What is this?''"
          and e = "Error ''offline''" and sg = CancelledError
          and resp = "\<lparr> reply_content = Some (PyStr ''a cat''), reply_usage = Some (UsageDict []), reply_str = ''reply'' \<rparr>"]
  by (simp add: Let_def example_multimodal_agent_def add_to_short_term_def split: sum.splits)

subsection \<open>Closure acceptance and loop identifiers\<close>

lemma replicate_two: "replicate 2 x = [x, x]"
  by (simp add: numeral_2_eq_2)

lemma nonblank_iff: "is_nonblank_str v \<longleftrightarrow> \<not> not_string_or_blank v"
  by (cases v) (simp_all add: not_string_or_blank_def)

lemma detect_closure_accepts:
  "fst (detect_closure agent hyp pat struct) \<longleftrightarrow>
     \<not> not_string_or_blank hyp \<and> \<not> not_string_or_blank pat \<and> \<not> not_string_or_blank struct"
  by (simp add: detect_closure_def nonblank_iff)

lemma example_now_valid: "valid_datetime example_now"
  by (simp add: valid_datetime_def example_now_def days_in_month_def)

text \<open>
  C4: for every ledger and every call of \<open>detect_and_log_closure\<close> (the clock giving a
  valid \<open>datetime\<close>, the backing file, if any, being written without failure): if any of hypothesis, pattern or structure is not a string or is
  empty after trimming whitespace, the call returns false, the rows are unchanged and
  nothing is written; if all three are non-blank strings, it returns true and the rows are
  the old rows followed by exactly one new row. The new row's loop id is \<open>RL-\<close> followed by
  decimal digits whose value is the old row count plus one, at least three of them and
  exactly three below 1000; its timestamp is a string that \<open>parse_iso8601\<close> reads back as
  the clock's instant; its hypothesis, pattern, structure and explanation are the
  arguments.
\<close>

theorem detect_and_log_closure_spec:
  "valid_datetime now \<Longrightarrow>
   (let res = detect_and_log_closure now fs L hyp pat struct explanation tp;
        n = length (closed_loops L) + 1
    in (not_string_or_blank hyp \<or> not_string_or_blank pat \<or> not_string_or_blank struct \<longrightarrow>
          fst res = False \<and> closed_loops (fst (snd res)) = closed_loops L \<and> snd (snd res) = fs) \<and>
       (\<not> not_string_or_blank hyp \<and> \<not> not_string_or_blank pat \<and> \<not> not_string_or_blank struct \<longrightarrow>
          fst res = True \<and>
          (\<exists>row digits ts.
              closed_loops (fst (snd res)) = closed_loops L @ [row] \<and>
              loop_id row = PyStr (''RL-'' @ digits) \<and>
              list_all is_digit digits \<and> digits_value digits = n \<and>
              3 \<le> length digits \<and> (n < 1000 \<longrightarrow> length digits = 3) \<and>
              timestamp row = PyStr ts \<and> parse_iso8601 ts = Some now \<and>
              hypothesis row = hyp \<and> pattern row = pat \<and> rl_structure row = struct \<and>
              why_closed row = PyStr explanation)))"
proof -
  assume valid: "valid_datetime now"
  define n where "n = length (closed_loops L) + 1"
  define res where "res = detect_and_log_closure now fs L hyp pat struct explanation tp"
  define accepted where "accepted = fst (detect_closure (closure_recognition_agent L) hyp pat struct)"
  have acc: "accepted \<longleftrightarrow>
      \<not> not_string_or_blank hyp \<and> \<not> not_string_or_blank pat \<and> \<not> not_string_or_blank struct"
    by (simp add: accepted_def detect_closure_accepts)
  have rejected: "fst res = False \<and> closed_loops (fst (snd res)) = closed_loops L \<and> snd (snd res) = fs"
    if "\<not> accepted"
    using that by (simp add: res_def accepted_def detect_and_log_closure_def split_beta)
  define row where "row = new_RecursiveLoop now (PyStr (''RL-'' @ fmt_0wd 3 n))
      (PyStr (if tp \<noteq> [] then tp else ''Loop '' @ str_nat n)) hyp pat struct (PyStr explanation) PyNone"
  have appended: "fst res = True \<and> closed_loops (fst (snd res)) = closed_loops L @ [row]"
    if "accepted"
    using that by (simp add: res_def accepted_def detect_and_log_closure_def split_beta Let_def
        row_def n_def)
  have digits: "list_all is_digit (fmt_0wd 3 n)" "digits_value (fmt_0wd 3 n) = n"
    "3 \<le> length (fmt_0wd 3 n)" "n < 1000 \<longrightarrow> length (fmt_0wd 3 n) = 3"
    using fmt_0wd_length [of 3 n]
    by (simp_all add: fmt_0wd_digits fmt_0wd_value fmt_0wd_min_length)
  have fields: "loop_id row = PyStr (''RL-'' @ fmt_0wd 3 n)" "timestamp row = PyStr (isoformat now)"
    "hypothesis row = hyp" "pattern row = pat" "rl_structure row = struct"
    "why_closed row = PyStr explanation"
    by (simp_all add: row_def new_RecursiveLoop_def)
  have accepted_case: "fst res = True \<and>
      (\<exists>row digits ts.
          closed_loops (fst (snd res)) = closed_loops L @ [row] \<and>
          loop_id row = PyStr (''RL-'' @ digits) \<and>
          list_all is_digit digits \<and> digits_value digits = n \<and>
          3 \<le> length digits \<and> (n < 1000 \<longrightarrow> length digits = 3) \<and>
          timestamp row = PyStr ts \<and> parse_iso8601 ts = Some now \<and>
          hypothesis row = hyp \<and> pattern row = pat \<and> rl_structure row = struct \<and>
          why_closed row = PyStr explanation)"
    if "accepted"
    using appended [OF that] digits fields parse_isoformat [OF valid] by blast
  show ?thesis
    using rejected accepted_case acc
    unfolding Let_def res_def [symmetric] n_def [symmetric] by blast
qed

theorem detect_and_log_closure_spec_witness:
  "valid_datetime example_now \<and>
   not_string_or_blank (PyStr ''   '') \<and> not_string_or_blank PyNone \<and>
   fst (detect_and_log_closure example_now Map.empty example_ledger
          (PyStr ''   '') (PyStr ''stripe'') (PyStr ''grid'') ''seen twice'' ''vision'') = False \<and>
   fst (detect_and_log_closure example_now Map.empty example_ledger
          (PyStr ''edges repeat'') (PyStr ''stripe'') (PyStr ''grid'') ''seen twice'' ''vision'') = True \<and>
   map loop_id (closed_loops (fst (snd (detect_and_log_closure example_now Map.empty example_ledger
          (PyStr ''edges repeat'') (PyStr ''stripe'') (PyStr ''grid'') ''seen twice'' ''vision''))))
     = [PyStr ''RL-001'']"
  using detect_and_log_closure_spec [OF example_now_valid, where fs = Map.empty and L = example_ledger
          and hyp = "PyStr ''   ''" and pat = "PyStr ''stripe''" and struct = "PyStr ''grid''"
          and explanation = "''seen twice''" and tp = "''vision''"]
        detect_and_log_closure_spec [OF example_now_valid, where fs = Map.empty and L = example_ledger
          and hyp = "PyStr ''edges repeat''" and pat = "PyStr ''stripe''" and struct = "PyStr ''grid''"
          and explanation = "''seen twice''" and tp = "''vision''"]
        example_now_valid
  by (simp add: Let_def not_string_or_blank_def py_strip_def py_isspace_def example_ledger_def
      detect_and_log_closure_def detect_closure_def new_RecursiveLoop_def fmt_0wd_def
      str_nat.simps digit_char_def char_of_def bit_Suc_0_iff replicate_two)

subsection \<open>Ledger round trip\<close>

text \<open>
  C5 (the code at the failing input): one closure with an empty explanation is logged to a
  fresh ledger backed by \<open>ledger.csv\<close>. The logged row has the explanation \<open>""\<close>; a new
  ledger constructed against the same path holds one row whose explanation is the float
  \<open>nan\<close>, because \<open>read_csv\<close> reads the empty field as a missing value.
\<close>

theorem ledger_round_trip_loses_empty_explanation:
  "map why_closed (closed_loops (fst (snd (detect_and_log_closure example_now Map.empty example_ledger
      (PyStr ''edges repeat'') (PyStr ''stripe'') (PyStr ''grid'') [] ''vision''))))
     = [PyStr []]
   \<and>
   new_Ledger example_now
     (snd (snd (detect_and_log_closure example_now Map.empty example_ledger
        (PyStr ''edges repeat'') (PyStr ''stripe'') (PyStr ''grid'') [] ''vision'')))
     (Some ''ledger.csv'')
   = Inr \<lparr> ledger_file = Some ''ledger.csv'',
           closed_loops =
             [\<lparr> loop_id = PyStr ''RL-001'', topic = PyStr ''vision'',
                hypothesis = PyStr ''edges repeat'', pattern = PyStr ''stripe'',
                rl_structure = PyStr ''grid'', why_closed = PyNaN,
                timestamp = PyStr ''2024-05-01T10:00:00'' \<rparr>],
           closure_recognition_agent = [] \<rparr>"
  by (simp add: detect_and_log_closure_def detect_closure_def new_RecursiveLoop_def example_ledger_def
      example_now_def isoformat_def fmt_0wd_def str_nat.simps digit_char_def char_of_def bit_Suc_0_iff replicate_two
      py_strip_def py_isspace_def save_ledger_def ledger_path_def get_ledger_df_def to_csv_def
      ledger_columns_def ledger_row_def new_Ledger_def load_ledger_def read_csv_def read_cell_def
      na_values_def load_row_def row_getitem_def row_get_def Let_def)

subsection \<open>Guardian integrity scan\<close>

text \<open>
  C6 (the code at the failing input): the ledger file exists, has one row and lacks the
  column \<open>Loop ID\<close>. \<open>scan_ledger\<close> does not return a report naming the missing column:
  \<open>df.duplicated(subset=["Loop ID"])\<close> raises \<open>KeyError\<close>, and the exception leaves
  \<open>scan_ledger\<close>.
\<close>

theorem scan_ledger_missing_loop_id_raises:
  "scan_ledger hash_frame
     [''ledger.csv'' \<mapsto>
        \<lparr> csv_header = [''Topic'', ''Hypothesis'', ''Pattern'', ''Structure'', ''Why Closed'', ''Timestamp''],
          csv_records = [[''vision'', ''edges repeat'', ''stripe'', ''grid'', ''seen twice'',
                          ''2024-05-01T10:00:00'']] \<rparr>]
     ''ledger.csv''
   = Inl (KeyError ''Loop ID'')"
  by (simp add: scan_ledger_def read_csv_def duplicated_sum_def)

end
